theory Spec2Isabelle
  imports Main "HOL-Library.Multiset"
begin

section \<open>JavaScript values\<close>

text \<open>
  The client in \<^verbatim>\<open>supabase.js\<close> receives untyped option bags, filter objects and JSON
  payloads. They are modelled by one datatype of JavaScript values.

  \<^item> \<open>JNum\<close> holds the integer-valued Numbers of the safe range, of magnitude at most
    \<open>2^53 - 1\<close> (ids, limits, offsets), which print as their decimal numeral; non-integers,
    \<open>NaN\<close> and larger numbers are not represented.
  \<^item> \<open>JStr\<close> holds strings whose characters are the code points U+0000 to U+00FF, one
    \<open>char\<close> each.
  \<^item> \<open>JObj\<close> holds a plain data object: its own enumerable string-keyed properties, as a list
    of key/value pairs in the order in which the properties were created (insertion order).
  \<^item> \<open>JArr\<close> holds a dense array.
\<close>

datatype jsval =
    JUndefined
  | JNull
  | JBool bool
  | JNum int
  | JStr string
  | JArr "jsval list"
  | JObj "(string \<times> jsval) list"

text \<open>Exceptions are values. \<open>Error msg\<close> is \<^verbatim>\<open>new Error(msg)\<close>; \<open>TypeError\<close> is what reading a
  property of \<^verbatim>\<open>null\<close> or \<^verbatim>\<open>undefined\<close> throws; \<open>NetworkError\<close> is a rejected \<^verbatim>\<open>fetch\<close>;
  \<open>JsonSyntaxError\<close> is a rejected \<^verbatim>\<open>response.json()\<close>.\<close>

datatype js_error = TypeError | NetworkError | JsonSyntaxError | Error string

subsection \<open>Decimal numerals\<close>

fun dec_digits :: "nat \<Rightarrow> string" where
  "dec_digits n =
     (if n < 10 then [''0123456789'' ! n]
      else dec_digits (n div 10) @ [''0123456789'' ! (n mod 10)])"

declare dec_digits.simps [simp del]

definition is_digit :: "char \<Rightarrow> bool" where
  "is_digit c = (c \<in> set ''0123456789'')"

definition dec_value :: "string \<Rightarrow> nat" where
  "dec_value s = foldl (\<lambda>n c. 10 * n + (of_char c - 48)) 0 s"

text \<open>An array index is a canonical decimal numeral (no sign, no leading zero) below
  \<open>2^32 - 1\<close>. Such keys are enumerated before all other keys of an object.\<close>

definition is_array_index :: "string \<Rightarrow> bool" where
  "is_array_index s =
     (case s of
        [] \<Rightarrow> False
      | c # cs \<Rightarrow> list_all is_digit s \<and> (if c = CHR ''0'' then cs = [] else True)
                 \<and> dec_value s < 4294967295)"

subsection \<open>Coercions\<close>

text \<open>\<open>js_truthy v\<close> is the test made by \<^verbatim>\<open>if (v)\<close> and by \<^verbatim>\<open>v || d\<close>.\<close>

fun js_truthy :: "jsval \<Rightarrow> bool" where
  "js_truthy JUndefined = False"
| "js_truthy JNull = False"
| "js_truthy (JBool b) = b"
| "js_truthy (JNum n) = (n \<noteq> 0)"
| "js_truthy (JStr s) = (s \<noteq> [])"
| "js_truthy (JArr xs) = True"
| "js_truthy (JObj fs) = True"

definition js_or :: "jsval \<Rightarrow> jsval \<Rightarrow> jsval" where
  "js_or a b = (if js_truthy a then a else b)"

fun join_str :: "string \<Rightarrow> string list \<Rightarrow> string" where
  "join_str sep [] = []"
| "join_str sep [x] = x"
| "join_str sep (x # y # ys) = x @ sep @ join_str sep (y # ys)"

text \<open>\<open>js_toString v\<close> is the string a template literal \<^verbatim>\<open>`${v}`\<close> and
  \<^verbatim>\<open>URLSearchParams.append\<close> make of \<open>v\<close>. An array is joined with commas, its \<^verbatim>\<open>null\<close> and
  \<^verbatim>\<open>undefined\<close> elements printed as the empty string. A number is printed as its decimal
  numeral, which is what JavaScript prints for the safe integers that \<open>JNum\<close> stands for. It is
  not what JavaScript prints for a larger Number (\<^verbatim>\<open>1e21\<close> is printed \<^verbatim>\<open>1e+21\<close>): a
  \<open>JNum\<close> beyond the safe range stands for no JavaScript value, and a statement about the text
  of a number carries the range as a hypothesis (\<open>in_safe_range\<close> below).\<close>

fun js_toString :: "jsval \<Rightarrow> string" where
  "js_toString JUndefined = ''undefined''"
| "js_toString JNull = ''null''"
| "js_toString (JBool b) = (if b then ''true'' else ''false'')"
| "js_toString (JNum n) = (if n < 0 then ''-'' @ dec_digits (nat (- n)) else dec_digits (nat n))"
| "js_toString (JStr s) = s"
| "js_toString (JArr xs) =
     join_str '','' (map (\<lambda>x. if x = JUndefined \<or> x = JNull then [] else js_toString x) xs)"
| "js_toString (JObj fs) = ''[object Object]''"

text \<open>\<open>in_safe_range v\<close>: every number that \<open>js_toString\<close> prints from \<open>v\<close> (the value itself,
  or an element of an array, at any depth) is a safe integer, of magnitude at most
  \<open>2^53 - 1\<close>.\<close>

fun in_safe_range :: "jsval \<Rightarrow> bool" where
  "in_safe_range (JNum n) = (- 9007199254740991 \<le> n \<and> n \<le> 9007199254740991)"
| "in_safe_range (JArr xs) = list_all in_safe_range xs"
| "in_safe_range v = True"

subsection \<open>Properties\<close>

text \<open>The order in which \<^verbatim>\<open>Object.entries\<close> and object spread enumerate the own properties
  of a plain object: array-index keys first, in ascending numeric order, then every other key
  in insertion order.\<close>

definition own_property_order :: "(string \<times> jsval) list \<Rightarrow> (string \<times> jsval) list" where
  "own_property_order fs =
     sort_key (\<lambda>p. dec_value (fst p)) (filter (\<lambda>p. is_array_index (fst p)) fs)
     @ filter (\<lambda>p. \<not> is_array_index (fst p)) fs"

text \<open>The own enumerable properties of a value that is not \<^verbatim>\<open>null\<close> or \<^verbatim>\<open>undefined\<close>
  (for those two, the callers below decide: spread copies nothing, \<^verbatim>\<open>Object.entries\<close>
  throws).\<close>

fun own_entries :: "jsval \<Rightarrow> (string \<times> jsval) list" where
  "own_entries (JObj fs) = own_property_order fs"
| "own_entries (JArr xs) = zip (map dec_digits [0..<length xs]) xs"
| "own_entries (JStr s) = zip (map dec_digits [0..<length s]) (map (\<lambda>c. JStr [c]) s)"
| "own_entries v = []"

definition nullish :: "jsval \<Rightarrow> bool" where
  "nullish v = (v = JUndefined \<or> v = JNull)"

definition Object_entries :: "jsval \<Rightarrow> js_error + (string \<times> jsval) list" where
  "Object_entries v = (if nullish v then Inl TypeError else Inr (own_entries v))"

text \<open>\<open>js_prop v k\<close> is the value of \<^verbatim>\<open>v.k\<close> for a \<open>v\<close> that is not \<^verbatim>\<open>null\<close> or
  \<^verbatim>\<open>undefined\<close>. The client reads only data properties (\<^verbatim>\<open>filters\<close>, \<^verbatim>\<open>select\<close>, \<^verbatim>\<open>order\<close>,
  \<^verbatim>\<open>column\<close>, \<^verbatim>\<open>direction\<close>, \<^verbatim>\<open>limit\<close>, \<^verbatim>\<open>offset\<close>, \<^verbatim>\<open>message\<close>, \<^verbatim>\<open>msg\<close>,
  \<^verbatim>\<open>error_description\<close>, \<^verbatim>\<open>access_token\<close>, \<^verbatim>\<open>length\<close>, \<^verbatim>\<open>0\<close>), none of which is
  inherited from a prototype.\<close>

fun js_prop :: "jsval \<Rightarrow> string \<Rightarrow> jsval" where
  "js_prop (JObj fs) k = (case map_of fs k of None \<Rightarrow> JUndefined | Some v \<Rightarrow> v)"
| "js_prop (JArr xs) k =
     (if k = ''length'' then JNum (int (length xs))
      else if is_array_index k \<and> dec_value k < length xs then xs ! dec_value k
      else JUndefined)"
| "js_prop (JStr s) k =
     (if k = ''length'' then JNum (int (length s))
      else if is_array_index k \<and> dec_value k < length s then JStr [s ! dec_value k]
      else JUndefined)"
| "js_prop v k = JUndefined"

definition js_get :: "jsval \<Rightarrow> string \<Rightarrow> js_error + jsval" where
  "js_get v k = (if nullish v then Inl TypeError else Inr (js_prop v k))"

text \<open>Assignment \<^verbatim>\<open>o[k] = v\<close> on a property list: an existing key keeps its place, a new key
  goes to the end.\<close>

fun obj_set :: "(string \<times> 'v) list \<Rightarrow> string \<Rightarrow> 'v \<Rightarrow> (string \<times> 'v) list" where
  "obj_set [] k v = [(k, v)]"
| "obj_set (p # ps) k v = (if fst p = k then (k, v) # ps else p # obj_set ps k v)"

text \<open>Object spread \<^verbatim>\<open>{...v}\<close>: the own enumerable properties of \<open>v\<close>, none for \<^verbatim>\<open>null\<close> and
  \<^verbatim>\<open>undefined\<close>.\<close>

definition spread :: "jsval \<Rightarrow> (string \<times> jsval) list" where
  "spread v = own_entries v"

text \<open>A default parameter value \<^verbatim>\<open>p = {}\<close> replaces \<^verbatim>\<open>undefined\<close> only.\<close>

definition default_empty :: "jsval \<Rightarrow> jsval" where
  "default_empty v = (if v = JUndefined then JObj [] else v)"

section \<open>URLSearchParams\<close>

text \<open>A \<^verbatim>\<open>URLSearchParams\<close> object is its list of name/value pairs; \<^verbatim>\<open>append\<close> adds a pair
  at the end. \<^verbatim>\<open>toString\<close> is the \<^verbatim>\<open>application/x-www-form-urlencoded\<close> serialiser: ASCII
  letters, digits and \<^verbatim>\<open>* - . _\<close> stay, a space becomes \<^verbatim>\<open>+\<close>, every other character is
  percent-encoded byte by byte in UTF-8 (two bytes for U+0080 to U+00FF).\<close>

definition urlencoded_safe :: "char \<Rightarrow> bool" where
  "urlencoded_safe c =
     (c \<in> set ''abcdefghijklmnopqrstuvwxyzABCDEFGHIJKLMNOPQRSTUVWXYZ0123456789*-._'')"

definition percent_byte :: "nat \<Rightarrow> string" where
  "percent_byte n = [CHR ''%'', ''0123456789ABCDEF'' ! (n div 16), ''0123456789ABCDEF'' ! (n mod 16)]"

definition urlencode_char :: "char \<Rightarrow> string" where
  "urlencode_char c =
     (if c = CHR '' '' then ''+''
      else if urlencoded_safe c then [c]
      else if (of_char c :: nat) < 128 then percent_byte (of_char c)
      else percent_byte (192 + of_char c div 64) @ percent_byte (128 + of_char c mod 64))"

definition urlencode :: "string \<Rightarrow> string" where
  "urlencode s = concat (map urlencode_char s)"

definition params_toString :: "(string \<times> string) list \<Rightarrow> string" where
  "params_toString ps = join_str ''&'' (map (\<lambda>p. urlencode (fst p) @ ''='' @ urlencode (snd p)) ps)"

section \<open>The client and its request builder\<close>

record client =
  supabaseUrl :: string
  supabaseKey :: string
  headers :: "(string \<times> string) list"

text \<open>The constructor (and \<^verbatim>\<open>setCredentials\<close>, which has the same body).\<close>

definition new_client :: "string \<Rightarrow> string \<Rightarrow> client" where
  "new_client url key =
     \<lparr> supabaseUrl = url, supabaseKey = key,
       headers = [(''apikey'', key),
                  (''Authorization'', ''Bearer '' @ key),
                  (''Content-Type'', ''application/json''),
                  (''Prefer'', ''return=representation'')] \<rparr>"

definition setCredentials :: "client \<Rightarrow> string \<Rightarrow> string \<Rightarrow> client" where
  "setCredentials c url key = new_client url key"

definition setAuthToken :: "client \<Rightarrow> jsval \<Rightarrow> client" where
  "setAuthToken c token =
     c \<lparr> headers := obj_set (headers c) ''Authorization'' (''Bearer '' @ js_toString token) \<rparr>"

text \<open>The filter rule shared by \<^verbatim>\<open>buildUrl\<close>, \<^verbatim>\<open>update\<close> and \<^verbatim>\<open>delete\<close>:
  \<^verbatim>\<open>params.append(key, `eq.${value}`)\<close> for each entry.\<close>

definition filter_param :: "string \<times> jsval \<Rightarrow> string \<times> string" where
  "filter_param e = (fst e, ''eq.'' @ js_toString (snd e))"

text \<open>The parameters \<^verbatim>\<open>buildUrl\<close> appends for a \<^verbatim>\<open>select\<close>, in the order of its five
  \<^verbatim>\<open>if\<close> statements. \<open>options\<close> is not \<^verbatim>\<open>null\<close> or \<^verbatim>\<open>undefined\<close> here.\<close>

definition filters_part :: "jsval \<Rightarrow> (string \<times> string) list" where
  "filters_part options =
     (if js_truthy (js_prop options ''filters'')
      then map filter_param (own_entries (js_prop options ''filters''))
      else [])"

definition select_part :: "jsval \<Rightarrow> (string \<times> string) list" where
  "select_part options =
     (if js_truthy (js_prop options ''select'')
      then [(''select'', js_toString (js_prop options ''select''))]
      else [])"

definition order_part :: "jsval \<Rightarrow> (string \<times> string) list" where
  "order_part options =
     (if js_truthy (js_prop options ''order'')
      then (let orderBy = js_or (js_prop (js_prop options ''order'') ''column'') (JStr ''id'');
                orderDir = js_or (js_prop (js_prop options ''order'') ''direction'') (JStr ''asc'')
            in [(''order'', js_toString orderBy @ ''.'' @ js_toString orderDir)])
      else [])"

definition limit_part :: "jsval \<Rightarrow> (string \<times> string) list" where
  "limit_part options =
     (if js_truthy (js_prop options ''limit'')
      then [(''limit'', js_toString (js_prop options ''limit''))]
      else [])"

definition offset_part :: "jsval \<Rightarrow> (string \<times> string) list" where
  "offset_part options =
     (if js_truthy (js_prop options ''offset'')
      then [(''offset'', js_toString (js_prop options ''offset''))]
      else [])"

definition select_params :: "jsval \<Rightarrow> (string \<times> string) list" where
  "select_params options =
     filters_part options @ select_part options @ order_part options
     @ limit_part options @ offset_part options"

definition with_query :: "string \<Rightarrow> (string \<times> string) list \<Rightarrow> string" where
  "with_query url params =
     (if params_toString params \<noteq> [] then url @ ''?'' @ params_toString params else url)"

text \<open>\<^verbatim>\<open>buildUrl(table, operation = 'select', options = {})\<close>. The first property read,
  \<^verbatim>\<open>options.filters\<close>, throws when \<open>options\<close> is \<^verbatim>\<open>null\<close>.\<close>

definition buildUrl :: "client \<Rightarrow> string \<Rightarrow> string \<Rightarrow> jsval \<Rightarrow> js_error + string" where
  "buildUrl c table operation options =
     (let url = supabaseUrl c @ ''/rest/v1/'' @ table
      in if operation = ''select''
         then (if nullish (default_empty options) then Inl TypeError
               else Inr (with_query url (select_params (default_empty options))))
         else Inr url)"


section \<open>Transport\<close>

text \<open>A request descriptor as handed to \<^verbatim>\<open>fetch\<close>. \<open>body = Some d\<close> stands for the text
  \<^verbatim>\<open>JSON.stringify(d)\<close>; \<open>None\<close> is a request sent without a body.\<close>

record request =
  url :: string
  http_method :: string
  rheaders :: "(string \<times> string) list"
  body :: "jsval option"

text \<open>What the client looks at in a response: \<^verbatim>\<open>response.ok\<close>, \<^verbatim>\<open>response.statusText\<close>
  and the outcome of \<^verbatim>\<open>await response.json()\<close>, which is \<open>None\<close> when the body is not JSON.\<close>

record response =
  ok :: bool
  statusText :: string
  json :: "jsval option"

text \<open>\<^verbatim>\<open>fetch\<close> either rejects (the request could not be completed) or resolves with a
  response. The backend is a parameter of every operation.\<close>

datatype fetch_result = Rejected | Resolved response

type_synonym backend = "request \<Rightarrow> fetch_result"

text \<open>What an operation does besides returning: the requests it hands to \<^verbatim>\<open>fetch\<close> and the
  lines it writes with \<^verbatim>\<open>console.error\<close> and \<^verbatim>\<open>console.warn\<close>, in order.\<close>

datatype event =
    Fetch request
  | ConsoleError string js_error
  | ConsoleWarn string

type_synonym 'a outcome = "(js_error + 'a) \<times> event list"

text \<open>\<^verbatim>\<open>await fetch(url, {...})\<close> followed by the handling \<open>k\<close> of the response.\<close>

definition send :: "backend \<Rightarrow> request \<Rightarrow> (response \<Rightarrow> js_error + 'a) \<Rightarrow> 'a outcome" where
  "send fetch rq k =
     (case fetch rq of
        Rejected \<Rightarrow> (Inl NetworkError, [Fetch rq])
      | Resolved r \<Rightarrow> (k r, [Fetch rq]))"

text \<open>\<^verbatim>\<open>try { ... } catch (error) { console.error(label, error); throw error; }\<close>\<close>

definition catch_log :: "string \<Rightarrow> 'a outcome \<Rightarrow> 'a outcome" where
  "catch_log label r =
     (case fst r of
        Inl e \<Rightarrow> (Inl e, snd r @ [ConsoleError label e])
      | Inr v \<Rightarrow> r)"

text \<open>\<^verbatim>\<open>a.f1 || a.f2 || ... || d\<close> for a value \<open>a\<close> that is not \<^verbatim>\<open>null\<close>.\<close>

fun first_truthy :: "jsval \<Rightarrow> string list \<Rightarrow> jsval \<Rightarrow> jsval" where
  "first_truthy a [] d = d"
| "first_truthy a (f # fs) d = js_or (js_prop a f) (first_truthy a fs d)"

text \<open>The error raised for a response that is not ok:
  \<^verbatim>\<open>const error = await response.json(); throw new Error(`${prefix}${error.f1 || ... || response.statusText}`)\<close>.
  A body that is not JSON makes \<^verbatim>\<open>response.json()\<close> reject; the body \<^verbatim>\<open>null\<close> makes the
  property read throw.\<close>

definition rejection :: "string \<Rightarrow> string list \<Rightarrow> response \<Rightarrow> js_error" where
  "rejection prefix names r =
     (case json r of
        None \<Rightarrow> JsonSyntaxError
      | Some error \<Rightarrow>
          if nullish error then TypeError
          else Error (prefix @ js_toString (first_truthy error names (JStr (statusText r)))))"

text \<open>The response handling shared by the CRUD operations and \<^verbatim>\<open>signUp\<close>:
  \<^verbatim>\<open>if (!response.ok) { ... throw ... } return await response.json();\<close>\<close>

definition classify :: "string \<Rightarrow> string list \<Rightarrow> response \<Rightarrow> js_error + jsval" where
  "classify prefix names r =
     (if \<not> ok r then Inl (rejection prefix names r)
      else (case json r of None \<Rightarrow> Inl JsonSyntaxError | Some data \<Rightarrow> Inr data))"

definition crud_result :: "response \<Rightarrow> js_error + jsval" where
  "crud_result r = classify ''Supabase Error: '' [''message''] r"

section \<open>CRUD operations\<close>

definition read :: "client \<Rightarrow> backend \<Rightarrow> string \<Rightarrow> jsval \<Rightarrow> jsval outcome" where
  "read c fetch table options =
     catch_log (''Error reading from '' @ table @ '':'')
       (case buildUrl c table ''select'' (default_empty options) of
          Inl e \<Rightarrow> (Inl e, [])
        | Inr u \<Rightarrow>
            send fetch \<lparr> url = u, http_method = ''GET'', rheaders = headers c, body = None \<rparr>
              crud_result)"

definition query :: "client \<Rightarrow> backend \<Rightarrow> string \<Rightarrow> jsval \<Rightarrow> jsval \<Rightarrow> jsval outcome" where
  "query c fetch table filters options =
     catch_log (''Error querying '' @ table @ '':'')
       (let queryOptions =
              JObj (obj_set (spread (default_empty options)) ''filters'' (default_empty filters))
        in case buildUrl c table ''select'' queryOptions of
             Inl e \<Rightarrow> (Inl e, [])
           | Inr u \<Rightarrow>
               send fetch \<lparr> url = u, http_method = ''GET'', rheaders = headers c, body = None \<rparr>
                 crud_result)"

text \<open>\<^verbatim>\<open>x > 0\<close> converts \<open>x\<close> to a Number first. For a string that conversion is the host's
  floating-point numeral parser, which is taken as the parameter \<open>str_pos\<close>: \<open>str_pos s\<close> says
  whether the Number denoted by \<open>s\<close> is greater than zero. An array is converted through its
  string, a plain object to \<open>NaN\<close>, \<^verbatim>\<open>null\<close> to \<open>0\<close>, \<^verbatim>\<open>undefined\<close> to \<open>NaN\<close>.\<close>

fun js_gt_zero :: "(string \<Rightarrow> bool) \<Rightarrow> jsval \<Rightarrow> bool" where
  "js_gt_zero str_pos (JNum n) = (n > 0)"
| "js_gt_zero str_pos (JBool b) = b"
| "js_gt_zero str_pos (JStr s) = str_pos s"
| "js_gt_zero str_pos (JArr xs) = str_pos (js_toString (JArr xs))"
| "js_gt_zero str_pos v = False"

text \<open>\<^verbatim>\<open>results.length > 0 ? results[0] : null\<close>\<close>

definition first_or_null :: "(string \<Rightarrow> bool) \<Rightarrow> jsval \<Rightarrow> js_error + jsval" where
  "first_or_null str_pos results =
     (if nullish results then Inl TypeError
      else Inr (if js_gt_zero str_pos (js_prop results ''length'')
                then js_prop results ''0'' else JNull))"

definition getById ::
  "(string \<Rightarrow> bool) \<Rightarrow> client \<Rightarrow> backend \<Rightarrow> string \<Rightarrow> jsval \<Rightarrow> jsval \<Rightarrow> jsval outcome" where
  "getById str_pos c fetch table rid options =
     catch_log (''Error getting '' @ table @ '' by ID:'')
       (let filters = JObj [(''id'', rid)];
            r = query c fetch table filters
                  (JObj (obj_set (spread (default_empty options)) ''limit'' (JNum 1)))
        in case fst r of
             Inl e \<Rightarrow> (Inl e, snd r)
           | Inr results \<Rightarrow> (first_or_null str_pos results, snd r))"

definition insert_row :: "client \<Rightarrow> backend \<Rightarrow> string \<Rightarrow> jsval \<Rightarrow> jsval outcome" where
  "insert_row c fetch table data =
     catch_log (''Error inserting into '' @ table @ '':'')
       (send fetch \<lparr> url = supabaseUrl c @ ''/rest/v1/'' @ table, http_method = ''POST'',
                     rheaders = headers c, body = Some data \<rparr>
          crud_result)"

definition insertMany :: "client \<Rightarrow> backend \<Rightarrow> string \<Rightarrow> jsval \<Rightarrow> jsval outcome" where
  "insertMany c fetch table dataArray =
     catch_log (''Error inserting multiple records into '' @ table @ '':'')
       (send fetch \<lparr> url = supabaseUrl c @ ''/rest/v1/'' @ table, http_method = ''POST'',
                     rheaders = headers c, body = Some dataArray \<rparr>
          crud_result)"

definition update :: "client \<Rightarrow> backend \<Rightarrow> string \<Rightarrow> jsval \<Rightarrow> jsval \<Rightarrow> jsval outcome" where
  "update c fetch table filters data =
     catch_log (''Error updating '' @ table @ '':'')
       (case Object_entries filters of
          Inl e \<Rightarrow> (Inl e, [])
        | Inr entries \<Rightarrow>
            send fetch
              \<lparr> url = with_query (supabaseUrl c @ ''/rest/v1/'' @ table) (map filter_param entries),
                http_method = ''PATCH'', rheaders = headers c, body = Some data \<rparr>
              crud_result)"

definition updateById :: "client \<Rightarrow> backend \<Rightarrow> string \<Rightarrow> jsval \<Rightarrow> jsval \<Rightarrow> jsval outcome" where
  "updateById c fetch table rid data = update c fetch table (JObj [(''id'', rid)]) data"

definition delete :: "client \<Rightarrow> backend \<Rightarrow> string \<Rightarrow> jsval \<Rightarrow> jsval outcome" where
  "delete c fetch table filters =
     catch_log (''Error deleting from '' @ table @ '':'')
       (case Object_entries filters of
          Inl e \<Rightarrow> (Inl e, [])
        | Inr entries \<Rightarrow>
            send fetch
              \<lparr> url = with_query (supabaseUrl c @ ''/rest/v1/'' @ table) (map filter_param entries),
                http_method = ''DELETE'', rheaders = headers c, body = None \<rparr>
              crud_result)"

definition deleteById :: "client \<Rightarrow> backend \<Rightarrow> string \<Rightarrow> jsval \<Rightarrow> jsval outcome" where
  "deleteById c fetch table rid = delete c fetch table (JObj [(''id'', rid)])"

section \<open>Authentication\<close>

definition signUp :: "client \<Rightarrow> backend \<Rightarrow> jsval \<Rightarrow> jsval \<Rightarrow> jsval \<Rightarrow> jsval outcome" where
  "signUp c fetch email password data =
     catch_log ''Error signing up:''
       (send fetch
          \<lparr> url = supabaseUrl c @ ''/auth/v1/signup'', http_method = ''POST'', rheaders = headers c,
            body = Some (JObj [(''email'', email), (''password'', password),
                               (''data'', default_empty data)]) \<rparr>
          (classify ''Supabase Auth Error: '' [''msg'', ''message'']))"

definition signIn_request :: "client \<Rightarrow> jsval \<Rightarrow> jsval \<Rightarrow> request" where
  "signIn_request c email password =
     \<lparr> url = supabaseUrl c @ ''/auth/v1/token?grant_type=password'', http_method = ''POST'',
       rheaders = headers c,
       body = Some (JObj [(''email'', email), (''password'', password)]) \<rparr>"

text \<open>\<^verbatim>\<open>signIn\<close> returns its outcome and the client as the call leaves it. The header is
  replaced only behind \<^verbatim>\<open>if (result.access_token)\<close>; reading that property of a \<^verbatim>\<open>null\<close>
  result throws.\<close>

definition signIn :: "client \<Rightarrow> backend \<Rightarrow> jsval \<Rightarrow> jsval \<Rightarrow> jsval outcome \<times> client" where
  "signIn c fetch email password =
     (let r = send fetch (signIn_request c email password)
                (classify ''Supabase Auth Error: '' [''error_description'', ''msg'', ''message''])
      in case fst r of
           Inl e \<Rightarrow> (catch_log ''Error signing in:'' r, c)
         | Inr result \<Rightarrow>
             if nullish result then (catch_log ''Error signing in:'' (Inl TypeError, snd r), c)
             else if js_truthy (js_prop result ''access_token'')
             then (r, setAuthToken c (js_prop result ''access_token''))
             else (r, c))"

text \<open>The logout request: \<^verbatim>\<open>const headers = { ...this.headers }\<close>, with the
  \<^verbatim>\<open>Authorization\<close> entry of that copy replaced when \<^verbatim>\<open>accessToken\<close> is truthy.\<close>

definition signOut_request :: "client \<Rightarrow> jsval \<Rightarrow> request" where
  "signOut_request c accessToken =
     \<lparr> url = supabaseUrl c @ ''/auth/v1/logout'', http_method = ''POST'',
       rheaders = (if js_truthy accessToken
                   then obj_set (headers c) ''Authorization'' (''Bearer '' @ js_toString accessToken)
                   else headers c),
       body = None \<rparr>"

text \<open>\<^verbatim>\<open>this.headers['Authorization'] = `Bearer ${this.supabaseKey}`\<close>\<close>

definition reset_authorization :: "client \<Rightarrow> client" where
  "reset_authorization c =
     c \<lparr> headers := obj_set (headers c) ''Authorization'' (''Bearer '' @ supabaseKey c) \<rparr>"

text \<open>\<^verbatim>\<open>signOut\<close>: a response that is not ok is only warned about, but the statement that
  resets the header is the last one inside the \<^verbatim>\<open>try\<close> block, so every exception thrown
  before it (a rejected \<^verbatim>\<open>fetch\<close>, a rejected \<^verbatim>\<open>response.json()\<close>, a \<^verbatim>\<open>null\<close> error body)
  skips it and is rethrown by the \<^verbatim>\<open>catch\<close> block.\<close>

definition signOut :: "client \<Rightarrow> backend \<Rightarrow> jsval \<Rightarrow> unit outcome \<times> client" where
  "signOut c fetch accessToken =
     (let rq = signOut_request c accessToken
      in case fetch rq of
           Rejected \<Rightarrow> (catch_log ''Error signing out:'' (Inl NetworkError, [Fetch rq]), c)
         | Resolved r \<Rightarrow>
             if \<not> ok r then
               (case json r of
                  None \<Rightarrow> (catch_log ''Error signing out:'' (Inl JsonSyntaxError, [Fetch rq]), c)
                | Some error \<Rightarrow>
                    if nullish error
                    then (catch_log ''Error signing out:'' (Inl TypeError, [Fetch rq]), c)
                    else ((Inr (),
                           [Fetch rq,
                            ConsoleWarn (''Supabase Logout Warning: '' @
                              js_toString (first_truthy error [''msg'', ''message'']
                                             (JStr (statusText r))))]),
                          reset_authorization c))
             else ((Inr (), [Fetch rq]), reset_authorization c))"

section \<open>Observations\<close>

text \<open>The requests among the events of an operation.\<close>

fun requests_of :: "event list \<Rightarrow> request list" where
  "requests_of [] = []"
| "requests_of (Fetch rq # es) = rq # requests_of es"
| "requests_of (e # es) = requests_of es"

text \<open>The \<^verbatim>\<open>console.error\<close> lines among the events of an operation.\<close>

fun errors_logged :: "event list \<Rightarrow> (string \<times> js_error) list" where
  "errors_logged [] = []"
| "errors_logged (ConsoleError l e # es) = (l, e) # errors_logged es"
| "errors_logged (e # es) = errors_logged es"

text \<open>The parameters of a given name in a parameter list (\<^verbatim>\<open>URLSearchParams.getAll\<close>).\<close>

definition getAll :: "(string \<times> string) list \<Rightarrow> string \<Rightarrow> string list" where
  "getAll params name = map snd (filter (\<lambda>p. fst p = name) params)"

text \<open>Two backends for examples, as the mocks of the test file: one answers every request
  with the same response, the other cannot be reached.\<close>

definition answering :: "response \<Rightarrow> backend" where
  "answering r rq = Resolved r"

definition unreachable :: backend where
  "unreachable rq = Rejected"

text \<open>The CRUD operations as one type of calls, to speak about all of them at once.\<close>

datatype crud_call =
    Read string jsval
  | Query string jsval jsval
  | GetById string jsval jsval
  | Insert string jsval
  | InsertMany string jsval
  | Update string jsval jsval
  | UpdateById string jsval jsval
  | Delete string jsval
  | DeleteById string jsval

fun run :: "(string \<Rightarrow> bool) \<Rightarrow> client \<Rightarrow> backend \<Rightarrow> crud_call \<Rightarrow> jsval outcome" where
  "run sp c fetch (Read t opts) = read c fetch t opts"
| "run sp c fetch (Query t f opts) = query c fetch t f opts"
| "run sp c fetch (GetById t i opts) = getById sp c fetch t i opts"
| "run sp c fetch (Insert t d) = insert_row c fetch t d"
| "run sp c fetch (InsertMany t d) = insertMany c fetch t d"
| "run sp c fetch (Update t f d) = update c fetch t f d"
| "run sp c fetch (UpdateById t i d) = updateById c fetch t i d"
| "run sp c fetch (Delete t f) = delete c fetch t f"
| "run sp c fetch (DeleteById t i) = deleteById c fetch t i"

text \<open>The client of the test file.\<close>

definition example_client :: client where
  "example_client = new_client ''https://test.supabase.co'' ''test-key''"

text \<open>The labels of the \<^verbatim>\<open>console.error\<close> lines an operation writes when it throws, in
  order: the text before the error in its \<^verbatim>\<open>catch\<close> block (for \<^verbatim>\<open>getById\<close>, the line of
  the \<^verbatim>\<open>query\<close> it calls comes first).\<close>

fun log_labels :: "crud_call \<Rightarrow> string list" where
  "log_labels (Read t opts) = [''Error reading from '' @ t @ '':'']"
| "log_labels (Query t f opts) = [''Error querying '' @ t @ '':'']"
| "log_labels (GetById t i opts) =
     [''Error querying '' @ t @ '':'', ''Error getting '' @ t @ '' by ID:'']"
| "log_labels (Insert t d) = [''Error inserting into '' @ t @ '':'']"
| "log_labels (InsertMany t d) = [''Error inserting multiple records into '' @ t @ '':'']"
| "log_labels (Update t f d) = [''Error updating '' @ t @ '':'']"
| "log_labels (UpdateById t i d) = [''Error updating '' @ t @ '':'']"
| "log_labels (Delete t f) = [''Error deleting from '' @ t @ '':'']"
| "log_labels (DeleteById t i) = [''Error deleting from '' @ t @ '':'']"

text \<open>An instance of the host's string-to-number comparison for examples: it is right on
  unsigned decimal numerals.\<close>

definition example_str_pos :: "string \<Rightarrow> bool" where
  "example_str_pos s = (s \<noteq> [] \<and> list_all is_digit s \<and> 0 < dec_value s)"

section \<open>Evaluation and basic facts\<close>

lemmas js_eval =
  is_digit_def dec_value_def is_array_index_def js_or_def own_property_order_def nullish_def
  Object_entries_def js_get_def spread_def default_empty_def urlencoded_safe_def percent_byte_def
  urlencode_char_def urlencode_def params_toString_def new_client_def setCredentials_def
  setAuthToken_def filter_param_def filters_part_def select_part_def order_part_def
  limit_part_def offset_part_def select_params_def with_query_def buildUrl_def send_def
  catch_log_def rejection_def classify_def crud_result_def read_def query_def first_or_null_def
  getById_def insert_row_def insertMany_def update_def updateById_def delete_def deleteById_def
  signUp_def signIn_request_def signIn_def signOut_request_def reset_authorization_def
  signOut_def getAll_def answering_def unreachable_def dec_digits.simps

lemma requests_of_append: "requests_of (xs @ ys) = requests_of xs @ requests_of ys"
  by (induction xs rule: requests_of.induct) simp_all

lemma requests_of_catch_log: "requests_of (snd (catch_log l r)) = requests_of (snd r)"
  by (cases r) (auto simp: catch_log_def requests_of_append split: sum.splits)

lemma fst_catch_log: "fst (catch_log l r) = fst r"
  by (cases r) (auto simp: catch_log_def split: sum.splits)

lemma requests_of_send: "requests_of (snd (send fetch rq k)) = [rq]"
  by (simp add: send_def split: fetch_result.splits)

lemma urlencode_append: "urlencode (xs @ ys) = urlencode xs @ urlencode ys"
  by (simp add: urlencode_def)

lemma own_entries_id: "own_entries (JObj [(''id'', rid)]) = [(''id'', rid)]"
  by (simp add: own_property_order_def is_array_index_def is_digit_def)

lemma id_filter_url:
  "with_query u [filter_param (''id'', rid)] = u @ ''?id=eq.'' @ urlencode (js_toString rid)"
  by (simp add: with_query_def params_toString_def filter_param_def urlencode_append)
     (simp add: urlencode_def urlencode_char_def urlencoded_safe_def)

section \<open>The by-id forms\<close>

text \<open>
  C4. For every table, id and patch, \<^verbatim>\<open>updateById(table, id, patch)\<close> is the call
  \<^verbatim>\<open>update(table, {id: id}, patch)\<close>: same result, same request descriptor (method, URL,
  headers, body), same log lines; and \<^verbatim>\<open>deleteById(table, id)\<close> is
  \<^verbatim>\<open>delete(table, {id: id})\<close>. The one request each of them sends is the \<^verbatim>\<open>PATCH\<close>
  (\<^verbatim>\<open>DELETE\<close>) of the table URL with the single parameter \<^verbatim>\<open>id=eq.<id>\<close>.
\<close>

theorem updateById_deleteById_are_compositions:
  "updateById c fetch table rid patch = update c fetch table (JObj [(''id'', rid)]) patch
   \<and> deleteById c fetch table rid = delete c fetch table (JObj [(''id'', rid)])
   \<and> requests_of (snd (updateById c fetch table rid patch)) =
       [\<lparr> url = supabaseUrl c @ ''/rest/v1/'' @ table @ ''?id=eq.'' @ urlencode (js_toString rid),
          http_method = ''PATCH'', rheaders = headers c, body = Some patch \<rparr>]
   \<and> requests_of (snd (deleteById c fetch table rid)) =
       [\<lparr> url = supabaseUrl c @ ''/rest/v1/'' @ table @ ''?id=eq.'' @ urlencode (js_toString rid),
          http_method = ''DELETE'', rheaders = headers c, body = None \<rparr>]"
proof -
  have entries: "Object_entries (JObj [(''id'', rid)]) = Inr [(''id'', rid)]"
    by (simp add: Object_entries_def nullish_def own_entries_id del: own_entries.simps)
  have "requests_of (snd (update c fetch table (JObj [(''id'', rid)]) patch)) =
       [\<lparr> url = supabaseUrl c @ ''/rest/v1/'' @ table @ ''?id=eq.'' @ urlencode (js_toString rid),
          http_method = ''PATCH'', rheaders = headers c, body = Some patch \<rparr>]"
    unfolding update_def requests_of_catch_log entries
    by (simp add: requests_of_send id_filter_url)
  moreover have "requests_of (snd (delete c fetch table (JObj [(''id'', rid)]))) =
       [\<lparr> url = supabaseUrl c @ ''/rest/v1/'' @ table @ ''?id=eq.'' @ urlencode (js_toString rid),
          http_method = ''DELETE'', rheaders = headers c, body = None \<rparr>]"
    unfolding delete_def requests_of_catch_log entries
    by (simp add: requests_of_send id_filter_url)
  ultimately show ?thesis
    by (simp add: updateById_def deleteById_def)
qed

theorem updateById_deleteById_witness:
  "updateById example_client (answering \<lparr> ok = True, statusText = ''OK'', json = Some (JArr []) \<rparr>)
     ''trips'' (JNum 1) (JObj [(''name'', JStr ''Updated Trip'')])
   = (Inr (JArr []),
      [Fetch \<lparr> url = ''https://test.supabase.co/rest/v1/trips?id=eq.1'', http_method = ''PATCH'',
               rheaders = headers example_client,
               body = Some (JObj [(''name'', JStr ''Updated Trip'')]) \<rparr>])"
  using updateById_deleteById_are_compositions
    [of example_client "answering \<lparr> ok = True, statusText = ''OK'', json = Some (JArr []) \<rparr>"
        "''trips''" "JNum 1" "JObj [(''name'', JStr ''Updated Trip'')]"]
  by (simp add: js_eval example_client_def)

section \<open>The query string of a select\<close>

lemma buildUrl_object:
  "buildUrl c table ''select'' (JObj os) =
     Inr (with_query (supabaseUrl c @ ''/rest/v1/'' @ table) (select_params (JObj os)))"
  by (simp add: buildUrl_def default_empty_def nullish_def)

lemma getAll_append: "getAll (xs @ ys) n = getAll xs n @ getAll ys n"
  by (simp add: getAll_def)

lemma getAll_absent: "n \<notin> fst ` set xs \<Longrightarrow> getAll xs n = []"
  by (induction xs) (auto simp: getAll_def)

lemma getAll_select_params:
  assumes "n \<notin> fst ` set (filters_part opts)"
  shows "getAll (select_params opts) n =
           getAll (select_part opts) n @ getAll (order_part opts) n
           @ getAll (limit_part opts) n @ getAll (offset_part opts) n"
  using assms by (simp add: select_params_def getAll_append getAll_absent)

lemma dec_digits_all_digits: "list_all is_digit (dec_digits n)"
proof (induction n rule: dec_digits.induct)
  case (1 n)
  have d: "is_digit (''0123456789'' ! k)" if "k < 10" for k
  proof -
    from that have "k \<in> {0, 1, 2, 3, 4, 5, 6, 7, 8, 9}" by auto
    then show ?thesis by (auto simp: is_digit_def)
  qed
  show ?case
  proof (cases "n < 10")
    case True
    then show ?thesis by (subst dec_digits.simps) (simp add: d)
  next
    case False
    with 1 show ?thesis by (subst dec_digits.simps) (simp add: d)
  qed
qed

lemma dec_value_snoc: "dec_value (s @ [c]) = 10 * dec_value s + (of_char c - 48)"
  by (simp add: dec_value_def)

lemma digit_char_value: "k < 10 \<Longrightarrow> (of_char (''0123456789'' ! k) :: nat) - 48 = k"
proof -
  assume "k < 10"
  then have "k \<in> {0, 1, 2, 3, 4, 5, 6, 7, 8, 9}" by auto
  then show ?thesis by auto
qed

lemma dec_value_dec_digits: "dec_value (dec_digits n) = n"
proof (induction n rule: dec_digits.induct)
  case (1 n)
  show ?case
  proof (cases "n < 10")
    case True
    then show ?thesis
      by (subst dec_digits.simps) (simp add: dec_value_def digit_char_value)
  next
    case False
    with 1 have "dec_value (dec_digits (n div 10)) = n div 10" by simp
    with False show ?thesis
      by (subst dec_digits.simps) (simp add: dec_value_snoc digit_char_value)
  qed
qed

text \<open>
  C7, as amended. For every Query Options record passed to \<^verbatim>\<open>buildUrl\<close> with operation
  \<^verbatim>\<open>select\<close> (and no filter on a column of the option's name): the \<^verbatim>\<open>limit\<close> and the
  \<^verbatim>\<open>offset\<close> option are each appended as exactly one parameter of that name when the option
  is truthy, and omitted otherwise. A positive integer of the safe range, at most
  \<open>2^53 - 1\<close>, is appended as its decimal numeral. The parameter is omitted when the option is
  absent, \<^verbatim>\<open>undefined\<close>, \<^verbatim>\<open>null\<close> or \<open>0\<close>: the guards are \<^verbatim>\<open>if (options.limit)\<close> and
  \<^verbatim>\<open>if (options.offset)\<close>, so a supplied offset of \<open>0\<close> is not appended.
\<close>

theorem limit_offset_appended_when_truthy:
  assumes "opt = ''limit'' \<or> opt = ''offset''"
    and "opt \<notin> fst ` set (filters_part (JObj os))"
  shows "buildUrl c table ''select'' (JObj os) =
           Inr (with_query (supabaseUrl c @ ''/rest/v1/'' @ table) (select_params (JObj os)))
       \<and> (getAll (select_params (JObj os)) opt = [] \<longleftrightarrow> \<not> js_truthy (js_prop (JObj os) opt))
       \<and> (js_truthy (js_prop (JObj os) opt) \<longrightarrow>
             (\<exists>d. getAll (select_params (JObj os)) opt = [d]))
       \<and> (js_truthy (js_prop (JObj os) opt) \<and> in_safe_range (js_prop (JObj os) opt) \<longrightarrow>
             getAll (select_params (JObj os)) opt = [js_toString (js_prop (JObj os) opt)])
       \<and> (\<forall>n. js_prop (JObj os) opt = JNum n \<and> 0 < n \<and> n \<le> 9007199254740991 \<longrightarrow>
             (\<exists>d. getAll (select_params (JObj os)) opt = [d] \<and> list_all is_digit d
                  \<and> dec_value d = nat n))
       \<and> (js_prop (JObj os) opt \<in> {JUndefined, JNull, JNum 0} \<longrightarrow>
             getAll (select_params (JObj os)) opt = [])"
proof -
  have parts: "getAll (select_params (JObj os)) opt =
           (if js_truthy (js_prop (JObj os) opt) then [js_toString (js_prop (JObj os) opt)] else [])"
    using assms(1)
    by (auto simp: getAll_select_params [OF assms(2)])
       (simp_all add: getAll_def select_part_def order_part_def limit_part_def offset_part_def)
  have iff: "getAll (select_params (JObj os)) opt = [] \<longleftrightarrow> \<not> js_truthy (js_prop (JObj os) opt)"
    using parts by simp
  have one: "\<exists>d. getAll (select_params (JObj os)) opt = [d]"
    if "js_truthy (js_prop (JObj os) opt)"
    using that parts by simp
  have printed: "getAll (select_params (JObj os)) opt = [js_toString (js_prop (JObj os) opt)]"
    if "js_truthy (js_prop (JObj os) opt) \<and> in_safe_range (js_prop (JObj os) opt)"
    using that parts by simp
  have dec: "\<exists>d. getAll (select_params (JObj os)) opt = [d] \<and> list_all is_digit d
                  \<and> dec_value d = nat n"
    if "js_prop (JObj os) opt = JNum n" "0 < n" for n
    using that parts by (simp add: dec_digits_all_digits dec_value_dec_digits)
  have falsy: "getAll (select_params (JObj os)) opt = []"
    if "js_prop (JObj os) opt \<in> {JUndefined, JNull, JNum 0}"
    using that parts by auto
  show ?thesis
    using iff one printed dec falsy buildUrl_object by blast
qed

theorem limit_offset_witness:
  "getAll (select_params (JObj [(''order'', JObj [(''column'', JStr ''created_at''),
        (''direction'', JStr ''desc'')]), (''limit'', JNum 50)])) ''limit'' = [''50'']
   \<and> js_truthy (JNum 50) \<and> in_safe_range (JNum 50)
   \<and> buildUrl example_client ''comments'' ''select''
        (JObj [(''order'', JObj [(''column'', JStr ''created_at''),
        (''direction'', JStr ''desc'')]), (''limit'', JNum 50)])
      = Inr ''https://test.supabase.co/rest/v1/comments?order=created_at.desc&limit=50''"
proof -
  have "''limit'' = ''limit'' \<or> ''limit'' = ''offset''" by simp
  moreover have "''limit'' \<notin> fst ` set (filters_part (JObj [(''order'', JObj [(''column'', JStr ''created_at''),
        (''direction'', JStr ''desc'')]), (''limit'', JNum 50)]))"
    by (simp add: filters_part_def)
  ultimately show ?thesis
    using limit_offset_appended_when_truthy
      [of "''limit''" "[(''order'', JObj [(''column'', JStr ''created_at''),
        (''direction'', JStr ''desc'')]), (''limit'', JNum 50)]" example_client "''comments''"]
    by (simp add: js_eval example_client_def)
qed

text \<open>A supplied offset of \<open>0\<close> is not appended as \<^verbatim>\<open>offset=0\<close>: the URL is the bare table
  URL.\<close>

theorem offset_zero_counterexample:
  "buildUrl example_client ''trips'' ''select'' (JObj [(''offset'', JNum 0)])
     = Inr ''https://test.supabase.co/rest/v1/trips''
   \<and> buildUrl example_client ''trips'' ''select'' (JObj [(''offset'', JNum 0)])
     \<noteq> Inr ''https://test.supabase.co/rest/v1/trips?offset=0''"
  by (simp add: js_eval example_client_def)

text \<open>
  C6. For every Query Options record passed to \<^verbatim>\<open>buildUrl\<close> with operation \<^verbatim>\<open>select\<close> (and
  no filter on a column named \<^verbatim>\<open>order\<close>): when the \<^verbatim>\<open>order\<close> option is absent, the
  parameter list of the built URL has no \<^verbatim>\<open>order\<close> parameter; when an order object is
  supplied, it has exactly one, \<^verbatim>\<open>order=<column>.<direction>\<close>, where the column is
  \<^verbatim>\<open>id\<close> when the object has no \<^verbatim>\<open>column\<close> field and the direction is \<^verbatim>\<open>asc\<close> when it has
  no \<^verbatim>\<open>direction\<close> field, and each is the supplied string otherwise.
\<close>

theorem order_param_only_when_supplied:
  assumes "''order'' \<notin> fst ` set (filters_part (JObj os))"
  shows "buildUrl c table ''select'' (JObj os) =
           Inr (with_query (supabaseUrl c @ ''/rest/v1/'' @ table) (select_params (JObj os)))
       \<and> (map_of os ''order'' = None \<longrightarrow> getAll (select_params (JObj os)) ''order'' = [])
       \<and> (\<forall>fs. map_of os ''order'' = Some (JObj fs) \<longrightarrow>
             (\<exists>col dir. getAll (select_params (JObj os)) ''order'' = [col @ ''.'' @ dir]
                \<and> (map_of fs ''column'' = None \<longrightarrow> col = ''id'')
                \<and> (\<forall>s. map_of fs ''column'' = Some (JStr s) \<and> s \<noteq> [] \<longrightarrow> col = s)
                \<and> (map_of fs ''direction'' = None \<longrightarrow> dir = ''asc'')
                \<and> (\<forall>s. map_of fs ''direction'' = Some (JStr s) \<and> s \<noteq> [] \<longrightarrow> dir = s)))"
proof -
  have split: "getAll (select_params (JObj os)) ''order'' = getAll (order_part (JObj os)) ''order''"
    by (simp add: getAll_select_params [OF assms])
       (simp add: getAll_def select_part_def limit_part_def offset_part_def)
  have absent: "getAll (select_params (JObj os)) ''order'' = []" if "map_of os ''order'' = None"
    using that unfolding split by (simp add: order_part_def getAll_def)
  have supplied: "\<exists>col dir. getAll (select_params (JObj os)) ''order'' = [col @ ''.'' @ dir]
                \<and> (map_of fs ''column'' = None \<longrightarrow> col = ''id'')
                \<and> (\<forall>s. map_of fs ''column'' = Some (JStr s) \<and> s \<noteq> [] \<longrightarrow> col = s)
                \<and> (map_of fs ''direction'' = None \<longrightarrow> dir = ''asc'')
                \<and> (\<forall>s. map_of fs ''direction'' = Some (JStr s) \<and> s \<noteq> [] \<longrightarrow> dir = s)"
    if "map_of os ''order'' = Some (JObj fs)" for fs
  proof (intro exI conjI)
    show "getAll (select_params (JObj os)) ''order'' =
            [js_toString (js_or (js_prop (JObj fs) ''column'') (JStr ''id'')) @ ''.'' @
             js_toString (js_or (js_prop (JObj fs) ''direction'') (JStr ''asc''))]"
      using that unfolding split by (simp add: order_part_def getAll_def)
  qed (simp_all add: js_or_def)
  show ?thesis
    using absent supplied buildUrl_object by blast
qed

theorem order_param_witness:
  "getAll (select_params (JObj [(''order'', JObj [(''column'', JStr ''date''),
        (''direction'', JStr ''desc'')])])) ''order'' = [''date.desc'']
   \<and> buildUrl example_client ''trips'' ''select''
        (JObj [(''order'', JObj [(''column'', JStr ''date''), (''direction'', JStr ''desc'')])])
      = Inr ''https://test.supabase.co/rest/v1/trips?order=date.desc''
   \<and> buildUrl example_client ''trips'' ''select'' (JObj [(''order'', JObj [])])
      = Inr ''https://test.supabase.co/rest/v1/trips?order=id.asc''
   \<and> buildUrl example_client ''trips'' ''select'' (JObj [(''limit'', JNum 10)])
      = Inr ''https://test.supabase.co/rest/v1/trips?limit=10''"
proof -
  have "''order'' \<notin> fst ` set (filters_part (JObj [(''order'', JObj [(''column'', JStr ''date''),
        (''direction'', JStr ''desc'')])]))"
    by (simp add: filters_part_def)
  from order_param_only_when_supplied [OF this, of example_client "''trips''"]
  show ?thesis
    by (simp add: js_eval example_client_def)
qed

lemma mset_own_property_order: "mset (own_property_order fs) = mset fs"
  by (simp add: own_property_order_def)

lemma own_property_order_no_index:
  assumes "\<forall>k \<in> fst ` set fs. \<not> is_array_index k"
  shows "own_property_order fs = fs"
proof -
  from assms have "filter (\<lambda>p. is_array_index (fst p)) fs = []"
    by (auto simp: filter_empty_conv)
  moreover from assms have "filter (\<lambda>p. \<not> is_array_index (fst p)) fs = fs"
    by (auto simp: filter_id_conv)
  ultimately show ?thesis
    by (simp add: own_property_order_def)
qed

lemma join_str_nonempty:
  "xs \<noteq> [] \<Longrightarrow> \<forall>x \<in> set xs. x \<noteq> [] \<Longrightarrow> join_str sep xs \<noteq> []"
  by (induction sep xs rule: join_str.induct) simp_all

lemma params_toString_filters:
  "params_toString (map filter_param es) =
     join_str ''&'' (map (\<lambda>e. urlencode (fst e) @ ''=eq.'' @ urlencode (js_toString (snd e))) es)"
  by (simp add: params_toString_def filter_param_def o_def urlencode_def urlencode_char_def
      urlencoded_safe_def)

lemma with_query_filters:
  "with_query u (map filter_param es) =
     (if es = [] then u
      else u @ ''?'' @ join_str ''&''
             (map (\<lambda>e. urlencode (fst e) @ ''=eq.'' @ urlencode (js_toString (snd e))) es))"
proof (cases "es = []")
  case True
  then show ?thesis by (simp add: with_query_def params_toString_def)
next
  case False
  then have "join_str ''&''
      (map (\<lambda>e. urlencode (fst e) @ ''=eq.'' @ urlencode (js_toString (snd e))) es) \<noteq> []"
    by (intro join_str_nonempty) simp_all
  with False show ?thesis
    by (simp add: with_query_def params_toString_filters)
qed

text \<open>
  C5, as amended. For every Filter Set \<open>F\<close>, the URL built by
  \<^verbatim>\<open>buildUrl(table, "select", {filters: F})\<close> is the table URL followed by the serialised
  parameter list that has exactly one parameter \<^verbatim>\<open>k=eq.v\<close> (value string-coerced) for each
  entry of \<open>F\<close> and no other parameter. The parameters appear in the order in which
  \<^verbatim>\<open>Object.entries\<close> enumerates \<open>F\<close>: the keys that are array indices first, in ascending
  numeric order, then all other keys in insertion order. For a Filter Set without
  array-index keys this is the insertion order.
\<close>

theorem buildUrl_filter_params:
  "buildUrl c table ''select'' (JObj [(''filters'', JObj fs)]) =
     Inr (if fs = [] then supabaseUrl c @ ''/rest/v1/'' @ table
          else supabaseUrl c @ ''/rest/v1/'' @ table @ ''?'' @
               join_str ''&''
                 (map (\<lambda>e. urlencode (fst e) @ ''=eq.'' @ urlencode (js_toString (snd e)))
                    (own_property_order fs)))
   \<and> select_params (JObj [(''filters'', JObj fs)]) =
       map (\<lambda>e. (fst e, ''eq.'' @ js_toString (snd e))) (own_property_order fs)
   \<and> mset (own_property_order fs) = mset fs
   \<and> ((\<forall>k \<in> fst ` set fs. \<not> is_array_index k) \<longrightarrow> own_property_order fs = fs)
   \<and> (\<exists>ixs. own_property_order fs = ixs @ filter (\<lambda>p. \<not> is_array_index (fst p)) fs
          \<and> mset ixs = mset (filter (\<lambda>p. is_array_index (fst p)) fs)
          \<and> sorted (map (\<lambda>p. dec_value (fst p)) ixs))"
proof -
  have params: "select_params (JObj [(''filters'', JObj fs)]) = map filter_param (own_property_order fs)"
    by (simp add: select_params_def filters_part_def select_part_def order_part_def
        limit_part_def offset_part_def)
  have "own_property_order fs = [] \<longleftrightarrow> fs = []"
    by (metis mset_own_property_order mset_zero_iff)
  with params have url: "buildUrl c table ''select'' (JObj [(''filters'', JObj fs)]) =
     Inr (if fs = [] then supabaseUrl c @ ''/rest/v1/'' @ table
          else supabaseUrl c @ ''/rest/v1/'' @ table @ ''?'' @
               join_str ''&''
                 (map (\<lambda>e. urlencode (fst e) @ ''=eq.'' @ urlencode (js_toString (snd e)))
                    (own_property_order fs)))"
    by (simp add: buildUrl_object with_query_filters)
  have "\<exists>ixs. own_property_order fs = ixs @ filter (\<lambda>p. \<not> is_array_index (fst p)) fs
          \<and> mset ixs = mset (filter (\<lambda>p. is_array_index (fst p)) fs)
          \<and> sorted (map (\<lambda>p. dec_value (fst p)) ixs)"
    by (rule exI [of _ "sort_key (\<lambda>p. dec_value (fst p)) (filter (\<lambda>p. is_array_index (fst p)) fs)"])
       (simp add: own_property_order_def)
  with url params show ?thesis
    by (simp add: mset_own_property_order own_property_order_no_index filter_param_def [abs_def])
qed

theorem buildUrl_filter_params_witness:
  "buildUrl example_client ''trips'' ''select''
     (JObj [(''filters'', JObj [(''user_id'', JNum 1), (''status'', JStr ''active'')])])
   = Inr ''https://test.supabase.co/rest/v1/trips?user_id=eq.1&status=eq.active''
   \<and> own_property_order [(''user_id'', JNum 1), (''status'', JStr ''active'')]
       = [(''user_id'', JNum 1), (''status'', JStr ''active'')]"
proof -
  have "\<forall>k \<in> fst ` set [(''user_id'', JNum 1), (''status'', JStr ''active'')]. \<not> is_array_index k"
    by (simp add: is_array_index_def is_digit_def)
  with buildUrl_filter_params
    [of example_client "''trips''" "[(''user_id'', JNum 1), (''status'', JStr ''active'')]"]
  have "own_property_order [(''user_id'', JNum 1), (''status'', JStr ''active'')]
       = [(''user_id'', JNum 1), (''status'', JStr ''active'')]"
    by blast
  then show ?thesis
    by (simp add: js_eval example_client_def)
qed

text \<open>The filter on the column \<^verbatim>\<open>1\<close> was inserted second and is encoded first.\<close>

theorem filter_order_counterexample:
  "buildUrl example_client ''trips'' ''select''
     (JObj [(''filters'', JObj [(''name'', JStr ''a''), (''1'', JNum 2)])])
   = Inr ''https://test.supabase.co/rest/v1/trips?1=eq.2&name=eq.a''
   \<and> buildUrl example_client ''trips'' ''select''
     (JObj [(''filters'', JObj [(''name'', JStr ''a''), (''1'', JNum 2)])])
   \<noteq> Inr ''https://test.supabase.co/rest/v1/trips?name=eq.a&1=eq.2''"
  by (simp add: js_eval example_client_def)

section \<open>Queries\<close>

lemma map_of_obj_set: "map_of (obj_set fs k v) k' = (if k' = k then Some v else map_of fs k')"
  by (induction fs) auto

lemma js_prop_obj_set:
  "js_prop (JObj (obj_set fs k v)) k' = (if k' = k then v else js_prop (JObj fs) k')"
  by (simp add: map_of_obj_set)

lemma map_of_own_property_order:
  assumes "distinct (map fst fs)"
  shows "map_of (own_property_order fs) = map_of fs"
proof -
  have "mset (map fst (own_property_order fs)) = mset (map fst fs)"
    by (simp add: mset_own_property_order)
  with assms have "distinct (map fst (own_property_order fs))"
    by (metis mset_eq_imp_distinct_iff)
  moreover have "set (own_property_order fs) = set fs"
    by (metis mset_own_property_order set_mset_mset)
  ultimately show ?thesis
    using assms by (simp add: map_of_inject_set)
qed

text \<open>
  C9. For every table, Filter Set \<open>F\<close> and options record \<open>O\<close>, \<^verbatim>\<open>query(table, F, O)\<close> returns
  or throws what \<^verbatim>\<open>read(table, O')\<close> does and sends the same \<^verbatim>\<open>GET\<close> request, where \<open>O'\<close> is
  \<open>O\<close> with its \<^verbatim>\<open>filters\<close> entry set to \<open>F\<close>: in \<open>O'\<close> the \<^verbatim>\<open>filters\<close> property is \<open>F\<close>
  whatever \<open>O\<close> had there, and every other property of \<open>O\<close> (\<^verbatim>\<open>select\<close>, \<^verbatim>\<open>order\<close>,
  \<^verbatim>\<open>limit\<close>, \<^verbatim>\<open>offset\<close>) is unchanged. (The two differ only in the label of the line logged
  on failure.)
\<close>

theorem query_is_read_with_filters:
  "fst (query c fetch table F opts) =
     fst (read c fetch table (JObj (obj_set (spread (default_empty opts)) ''filters'' (default_empty F))))
   \<and> requests_of (snd (query c fetch table F opts)) =
     requests_of (snd (read c fetch table
        (JObj (obj_set (spread (default_empty opts)) ''filters'' (default_empty F)))))
   \<and> js_prop (JObj (obj_set (spread (default_empty opts)) ''filters'' (default_empty F))) ''filters''
       = default_empty F
   \<and> (\<forall>os k. opts = JObj os \<and> distinct (map fst os) \<and> k \<noteq> ''filters'' \<longrightarrow>
        js_prop (JObj (obj_set (spread (default_empty opts)) ''filters'' (default_empty F))) k
          = js_prop opts k)"
proof -
  let ?O = "JObj (obj_set (spread (default_empty opts)) ''filters'' (default_empty F))"
  have same: "default_empty ?O = ?O"
    by (simp add: default_empty_def)
  have res: "fst (query c fetch table F opts) = fst (read c fetch table ?O)"
    unfolding query_def read_def fst_catch_log same Let_def ..
  have reqs: "requests_of (snd (query c fetch table F opts)) = requests_of (snd (read c fetch table ?O))"
    unfolding query_def read_def requests_of_catch_log same Let_def ..
  have "js_prop ?O k = js_prop opts k"
    if "opts = JObj os" "distinct (map fst os)" "k \<noteq> ''filters''" for os k
    using that
    by (simp add: map_of_obj_set spread_def default_empty_def map_of_own_property_order)
  with res reqs show ?thesis
    by (simp add: js_prop_obj_set del: js_prop.simps)
qed

theorem query_is_read_witness:
  "fst (query example_client (answering \<lparr> ok = True, statusText = ''OK'', json = Some (JArr []) \<rparr>)
          ''trips'' (JObj [(''user_id'', JNum 1)])
          (JObj [(''limit'', JNum 10), (''filters'', JObj [(''x'', JNum 2)])]))
     = Inr (JArr [])
   \<and> requests_of (snd (query example_client
          (answering \<lparr> ok = True, statusText = ''OK'', json = Some (JArr []) \<rparr>)
          ''trips'' (JObj [(''user_id'', JNum 1)])
          (JObj [(''limit'', JNum 10), (''filters'', JObj [(''x'', JNum 2)])])))
     = [\<lparr> url = ''https://test.supabase.co/rest/v1/trips?user_id=eq.1&limit=10'',
          http_method = ''GET'', rheaders = headers example_client, body = None \<rparr>]
   \<and> distinct (map fst [(''limit'', JNum 10), (''filters'', JObj [(''x'', JNum 2)])])
   \<and> js_prop (JObj (obj_set (spread (default_empty (JObj [(''limit'', JNum 10),
          (''filters'', JObj [(''x'', JNum 2)])]))) ''filters''
          (default_empty (JObj [(''user_id'', JNum 1)])))) ''limit'' = JNum 10"
  using query_is_read_with_filters
    [of example_client "answering \<lparr> ok = True, statusText = ''OK'', json = Some (JArr []) \<rparr>"
        "''trips''" "JObj [(''user_id'', JNum 1)]"
        "JObj [(''limit'', JNum 10), (''filters'', JObj [(''x'', JNum 2)])]"]
  by (simp add: js_eval example_client_def)

lemma first_or_null_array:
  "first_or_null sp (JArr rows) = Inr (case rows of [] \<Rightarrow> JNull | x # xs \<Rightarrow> x)"
  by (cases rows) (simp_all add: first_or_null_def nullish_def is_array_index_def is_digit_def dec_value_def)

text \<open>
  C3. For every table, id and options, \<^verbatim>\<open>getById(table, id, options)\<close> behaves like
  \<^verbatim>\<open>query(table, {id: id}, options')\<close>, where \<open>options'\<close> is \<open>options\<close> with \<^verbatim>\<open>limit\<close> set to
  \<open>1\<close> and nothing else changed, followed by taking the first element: when the query returns
  a sequence of rows, \<^verbatim>\<open>getById\<close> returns its first row, and \<^verbatim>\<open>null\<close> (no error) when the
  sequence is empty, with the events of the query and nothing more; when the query throws,
  \<^verbatim>\<open>getById\<close> throws the same error after logging it once more.
\<close>

theorem getById_is_query_then_first:
  "(query c fetch table (JObj [(''id'', rid)])
        (JObj (obj_set (spread (default_empty opts)) ''limit'' (JNum 1))) = (Inr (JArr rows), evs)
      \<longrightarrow> getById sp c fetch table rid opts
            = (Inr (case rows of [] \<Rightarrow> JNull | x # xs \<Rightarrow> x), evs))
   \<and> (query c fetch table (JObj [(''id'', rid)])
        (JObj (obj_set (spread (default_empty opts)) ''limit'' (JNum 1))) = (Inl e, evs)
      \<longrightarrow> getById sp c fetch table rid opts
            = (Inl e, evs @ [ConsoleError (''Error getting '' @ table @ '' by ID:'') e]))
   \<and> js_prop (JObj (obj_set (spread (default_empty opts)) ''limit'' (JNum 1))) ''limit'' = JNum 1
   \<and> (\<forall>os k. opts = JObj os \<and> distinct (map fst os) \<and> k \<noteq> ''limit'' \<longrightarrow>
        js_prop (JObj (obj_set (spread (default_empty opts)) ''limit'' (JNum 1))) k
          = js_prop opts k)"
proof -
  let ?O = "JObj (obj_set (spread (default_empty opts)) ''limit'' (JNum 1))"
  let ?q = "query c fetch table (JObj [(''id'', rid)]) ?O"
  have rows: "getById sp c fetch table rid opts
            = (Inr (case rows of [] \<Rightarrow> JNull | x # xs \<Rightarrow> x), evs)"
    if "?q = (Inr (JArr rows), evs)"
    using that by (simp add: getById_def Let_def first_or_null_array catch_log_def)
  have err: "getById sp c fetch table rid opts
            = (Inl e, evs @ [ConsoleError (''Error getting '' @ table @ '' by ID:'') e])"
    if "?q = (Inl e, evs)"
    using that by (simp add: getById_def Let_def catch_log_def)
  have keep: "js_prop ?O k = js_prop opts k"
    if "opts = JObj os" "distinct (map fst os)" "k \<noteq> ''limit''" for os k
    using that
    by (simp add: map_of_obj_set spread_def default_empty_def map_of_own_property_order)
  have "js_prop ?O ''limit'' = JNum 1"
    by (simp add: map_of_obj_set)
  with rows err keep show ?thesis
    by blast
qed

theorem getById_witness:
  "getById example_str_pos example_client
     (answering \<lparr> ok = True, statusText = ''OK'', json = Some (JArr []) \<rparr>) ''trips'' (JNum 999)
     JUndefined
   = (Inr JNull,
      [Fetch \<lparr> url = ''https://test.supabase.co/rest/v1/trips?id=eq.999&limit=1'',
               http_method = ''GET'', rheaders = headers example_client, body = None \<rparr>])
   \<and> getById example_str_pos example_client
     (answering \<lparr> ok = True, statusText = ''OK'',
                  json = Some (JArr [JObj [(''id'', JNum 1), (''name'', JStr ''Test Trip'')]]) \<rparr>)
     ''trips'' (JNum 1) JUndefined
   = (Inr (JObj [(''id'', JNum 1), (''name'', JStr ''Test Trip'')]),
      [Fetch \<lparr> url = ''https://test.supabase.co/rest/v1/trips?id=eq.1&limit=1'',
               http_method = ''GET'', rheaders = headers example_client, body = None \<rparr>])
   \<and> getById example_str_pos example_client unreachable ''trips'' (JNum 1) JUndefined
   = (Inl NetworkError,
      [Fetch \<lparr> url = ''https://test.supabase.co/rest/v1/trips?id=eq.1&limit=1'',
               http_method = ''GET'', rheaders = headers example_client, body = None \<rparr>,
       ConsoleError ''Error querying trips:'' NetworkError,
       ConsoleError ''Error getting trips by ID:'' NetworkError])"
proof -
  let ?rq = "\<lambda>i. \<lparr> url = ''https://test.supabase.co/rest/v1/trips?id=eq.'' @ i @ ''&limit=1'',
               http_method = ''GET'', rheaders = headers example_client, body = None \<rparr>"
  let ?O = "JObj (obj_set (spread (default_empty JUndefined)) ''limit'' (JNum 1))"
  have q0: "query example_client
      (answering \<lparr> ok = True, statusText = ''OK'', json = Some (JArr []) \<rparr>) ''trips''
      (JObj [(''id'', JNum 999)]) ?O = (Inr (JArr []), [Fetch (?rq ''999'')])"
    by (simp add: js_eval example_client_def)
  have q1: "query example_client
      (answering \<lparr> ok = True, statusText = ''OK'',
                  json = Some (JArr [JObj [(''id'', JNum 1), (''name'', JStr ''Test Trip'')]]) \<rparr>)
      ''trips'' (JObj [(''id'', JNum 1)]) ?O
      = (Inr (JArr [JObj [(''id'', JNum 1), (''name'', JStr ''Test Trip'')]]), [Fetch (?rq ''1'')])"
    by (simp add: js_eval example_client_def)
  have q2: "query example_client unreachable ''trips'' (JObj [(''id'', JNum 1)]) ?O
      = (Inl NetworkError, [Fetch (?rq ''1''), ConsoleError ''Error querying trips:'' NetworkError])"
    by (simp add: js_eval example_client_def)
  from getById_is_query_then_first [where c = example_client and table = "''trips''"
        and rid = "JNum 999" and opts = JUndefined and rows = "[]"
        and evs = "[Fetch (?rq ''999'')]" and sp = example_str_pos] q0
  have g0: "getById example_str_pos example_client
     (answering \<lparr> ok = True, statusText = ''OK'', json = Some (JArr []) \<rparr>) ''trips'' (JNum 999)
     JUndefined = (Inr JNull, [Fetch (?rq ''999'')])"
    by simp
  from getById_is_query_then_first [where c = example_client and table = "''trips''"
        and rid = "JNum 1" and opts = JUndefined
        and rows = "[JObj [(''id'', JNum 1), (''name'', JStr ''Test Trip'')]]"
        and evs = "[Fetch (?rq ''1'')]" and sp = example_str_pos] q1
  have g1: "getById example_str_pos example_client
     (answering \<lparr> ok = True, statusText = ''OK'',
                  json = Some (JArr [JObj [(''id'', JNum 1), (''name'', JStr ''Test Trip'')]]) \<rparr>)
     ''trips'' (JNum 1) JUndefined
     = (Inr (JObj [(''id'', JNum 1), (''name'', JStr ''Test Trip'')]), [Fetch (?rq ''1'')])"
    by simp
  from getById_is_query_then_first [where c = example_client and fetch = unreachable
        and table = "''trips''" and rid = "JNum 1" and opts = JUndefined and e = NetworkError
        and evs = "[Fetch (?rq ''1''), ConsoleError ''Error querying trips:'' NetworkError]"
        and sp = example_str_pos] q2
  have g2: "getById example_str_pos example_client unreachable ''trips'' (JNum 1) JUndefined
     = (Inl NetworkError, [Fetch (?rq ''1''), ConsoleError ''Error querying trips:'' NetworkError,
         ConsoleError ''Error getting trips by ID:'' NetworkError])"
    by simp
  from g0 g1 g2 show ?thesis by simp
qed

section \<open>Response classification\<close>

lemma errors_logged_append: "errors_logged (xs @ ys) = errors_logged xs @ errors_logged ys"
  by (induction xs rule: errors_logged.induct) simp_all

lemma send_answering: "send (answering r) rq k = (k r, [Fetch rq])"
  by (simp add: send_def answering_def)

lemma catch_log_Inl: "catch_log l (Inl e, evs) = (Inl e, evs @ [ConsoleError l e])"
  by (simp add: catch_log_def)

lemma catch_log_Inr: "catch_log l (Inr v, evs) = (Inr v, evs)"
  by (simp add: catch_log_def)

lemma crud_result_cases:
  "crud_result r =
     (if ok r then (case json r of None \<Rightarrow> Inl JsonSyntaxError | Some d \<Rightarrow> Inr d)
      else (case json r of
              None \<Rightarrow> Inl JsonSyntaxError
            | Some err \<Rightarrow>
                if nullish err then Inl TypeError
                else Inl (Error (''Supabase Error: '' @
                       js_toString (if js_truthy (js_prop err ''message'')
                                    then js_prop err ''message'' else JStr (statusText r))))))"
  by (simp add: crud_result_def classify_def rejection_def js_or_def split: option.splits)

text \<open>Every operation that reaches \<^verbatim>\<open>fetch\<close> hands the response to the same handling and
  logs a thrown error under its own labels.\<close>

lemma run_answering:
  assumes "requests_of (snd (run sp c (answering r) call)) \<noteq> []"
  shows "fst (run sp c (answering r) call) =
           (case crud_result r of
              Inl e \<Rightarrow> Inl e
            | Inr d \<Rightarrow> (case call of GetById t i opts \<Rightarrow> first_or_null sp d | _ \<Rightarrow> Inr d))"
    and "\<And>e. crud_result r = Inl e \<Longrightarrow>
           errors_logged (snd (run sp c (answering r) call)) = map (\<lambda>l. (l, e)) (log_labels call)"
proof -
  show "fst (run sp c (answering r) call) =
           (case crud_result r of
              Inl e \<Rightarrow> Inl e
            | Inr d \<Rightarrow> (case call of GetById t i opts \<Rightarrow> first_or_null sp d | _ \<Rightarrow> Inr d))"
    using assms
    by (cases call; cases "crud_result r")
       (auto simp: read_def query_def getById_def insert_row_def insertMany_def update_def
          updateById_def delete_def deleteById_def send_answering catch_log_Inl catch_log_Inr
          fst_catch_log Let_def
          split: sum.splits)
  show "errors_logged (snd (run sp c (answering r) call)) = map (\<lambda>l. (l, e)) (log_labels call)"
    if "crud_result r = Inl e" for e
    using assms that
    by (cases call)
       (auto simp: read_def query_def getById_def insert_row_def insertMany_def update_def
          updateById_def delete_def deleteById_def send_answering catch_log_Inl catch_log_Inr
          Let_def errors_logged_append
          split: sum.splits)
qed

text \<open>
  C8, as amended. For every CRUD operation (\<^verbatim>\<open>read\<close>, \<^verbatim>\<open>query\<close>, \<^verbatim>\<open>getById\<close>, \<^verbatim>\<open>insert\<close>,
  \<^verbatim>\<open>insertMany\<close>, \<^verbatim>\<open>update\<close>, \<^verbatim>\<open>delete\<close> and the by-id forms) whose request is answered:
  a success status with a JSON body yields the parsed body as the return value (for
  \<^verbatim>\<open>getById\<close>, its first element or \<^verbatim>\<open>null\<close>); a failure status with a JSON body other than
  \<^verbatim>\<open>null\<close> raises the error \<^verbatim>\<open>Supabase Error: <m>\<close>, where \<open>m\<close> is the body's \<^verbatim>\<open>message\<close>
  field when that is truthy and the HTTP status text otherwise; a body that is not JSON makes
  the operation raise the parser's error instead, whatever the status. The raised error does
  not mention the table or the operation: that context is in the label of the
  \<^verbatim>\<open>console.error\<close> line written when the error is rethrown.
\<close>

theorem crud_response_classification:
  assumes "requests_of (snd (run sp c (answering r) call)) \<noteq> []"
  shows "(ok r \<and> json r = Some d \<longrightarrow>
            fst (run sp c (answering r) call) =
              (case call of GetById t i opts \<Rightarrow> first_or_null sp d | _ \<Rightarrow> Inr d))
       \<and> (\<not> ok r \<and> json r = Some err \<and> \<not> nullish err \<longrightarrow>
            fst (run sp c (answering r) call) =
              Inl (Error (''Supabase Error: '' @
                     js_toString (if js_truthy (js_prop err ''message'')
                                  then js_prop err ''message'' else JStr (statusText r))))
          \<and> errors_logged (snd (run sp c (answering r) call)) =
              map (\<lambda>l. (l, Error (''Supabase Error: '' @
                     js_toString (if js_truthy (js_prop err ''message'')
                                  then js_prop err ''message'' else JStr (statusText r)))))
                (log_labels call))
       \<and> (json r = None \<longrightarrow>
            fst (run sp c (answering r) call) = Inl JsonSyntaxError
          \<and> errors_logged (snd (run sp c (answering r) call)) =
              map (\<lambda>l. (l, JsonSyntaxError)) (log_labels call))"
proof (intro conjI impI)
  assume "ok r \<and> json r = Some d"
  then have "crud_result r = Inr d"
    by (simp add: crud_result_cases)
  then show "fst (run sp c (answering r) call) =
              (case call of GetById t i opts \<Rightarrow> first_or_null sp d | _ \<Rightarrow> Inr d)"
    by (simp add: run_answering(1) [OF assms])
next
  let ?e = "Error (''Supabase Error: '' @
                     js_toString (if js_truthy (js_prop err ''message'')
                                  then js_prop err ''message'' else JStr (statusText r)))"
  assume "\<not> ok r \<and> json r = Some err \<and> \<not> nullish err"
  then have *: "crud_result r = Inl ?e"
    by (simp add: crud_result_cases)
  then show "fst (run sp c (answering r) call) = Inl ?e"
    by (simp add: run_answering(1) [OF assms])
  from * show "errors_logged (snd (run sp c (answering r) call)) = map (\<lambda>l. (l, ?e)) (log_labels call)"
    by (rule run_answering(2) [OF assms])
next
  assume "json r = None"
  then have *: "crud_result r = Inl JsonSyntaxError"
    by (simp add: crud_result_cases)
  then show "fst (run sp c (answering r) call) = Inl JsonSyntaxError"
    by (simp add: run_answering(1) [OF assms])
  from * show "errors_logged (snd (run sp c (answering r) call)) =
      map (\<lambda>l. (l, JsonSyntaxError)) (log_labels call)"
    by (rule run_answering(2) [OF assms])
qed

theorem crud_response_witness:
  "run example_str_pos example_client
     (answering \<lparr> ok = False, statusText = ''Bad Request'',
                  json = Some (JObj [(''message'', JStr ''duplicate nickname'')]) \<rparr>)
     (Insert ''users'' (JObj [(''nickname'', JStr ''alice'')]))
   = (Inl (Error ''Supabase Error: duplicate nickname''),
      [Fetch \<lparr> url = ''https://test.supabase.co/rest/v1/users'', http_method = ''POST'',
               rheaders = headers example_client,
               body = Some (JObj [(''nickname'', JStr ''alice'')]) \<rparr>,
       ConsoleError ''Error inserting into users:'' (Error ''Supabase Error: duplicate nickname'')])
   \<and> fst (run example_str_pos example_client
     (answering \<lparr> ok = True, statusText = ''Created'',
                  json = Some (JArr [JObj [(''id'', JNum 7), (''content'', JStr ''hi'')]]) \<rparr>)
     (Insert ''comments'' (JObj [(''content'', JStr ''hi'')])))
   = Inr (JArr [JObj [(''id'', JNum 7), (''content'', JStr ''hi'')]])"
proof -
  let ?bad = "\<lparr> ok = False, statusText = ''Bad Request'',
                  json = Some (JObj [(''message'', JStr ''duplicate nickname'')]) \<rparr>"
  let ?good = "\<lparr> ok = True, statusText = ''Created'',
                  json = Some (JArr [JObj [(''id'', JNum 7), (''content'', JStr ''hi'')]]) \<rparr>"
  have sent: "requests_of (snd (run example_str_pos example_client (answering r) (Insert t d))) \<noteq> []"
    for r t d
    by (simp add: insert_row_def requests_of_catch_log requests_of_send)
  from crud_response_classification
      [OF sent [of ?good "''comments''" "JObj [(''content'', JStr ''hi'')]"],
       where d = "JArr [JObj [(''id'', JNum 7), (''content'', JStr ''hi'')]]"]
    crud_response_classification
      [OF sent [of ?bad "''users''" "JObj [(''nickname'', JStr ''alice'')]"],
       where err = "JObj [(''message'', JStr ''duplicate nickname'')]"]
  show ?thesis
    by (simp add: js_eval example_client_def)
qed

text \<open>A failure status with a body that is not JSON: the error raised is the parser's, the
  status text \<^verbatim>\<open>Not Found\<close> is not used.\<close>

theorem crud_unparsed_error_body_counterexample:
  "read example_client (answering \<lparr> ok = False, statusText = ''Not Found'', json = None \<rparr>)
     ''trips'' JUndefined
   = (Inl JsonSyntaxError,
      [Fetch \<lparr> url = ''https://test.supabase.co/rest/v1/trips'', http_method = ''GET'',
               rheaders = headers example_client, body = None \<rparr>,
       ConsoleError ''Error reading from trips:'' JsonSyntaxError])
   \<and> fst (read example_client (answering \<lparr> ok = False, statusText = ''Not Found'', json = None \<rparr>)
          ''trips'' JUndefined)
     \<noteq> Inl (Error ''Supabase Error: Not Found'')"
  by (simp add: js_eval example_client_def)

section \<open>The session credential\<close>

lemma signOut_rejected:
  assumes "fetch (signOut_request c t) = Rejected"
  shows "signOut c fetch t =
           ((Inl NetworkError,
             [Fetch (signOut_request c t), ConsoleError ''Error signing out:'' NetworkError]), c)"
  using assms by (simp add: signOut_def catch_log_Inl)

lemma signOut_answered:
  assumes "fetch (signOut_request c t) = Resolved r"
    and "ok r \<or> (\<exists>err. json r = Some err \<and> \<not> nullish err)"
  shows "snd (signOut c fetch t) = reset_authorization c"
    and "fst (fst (signOut c fetch t)) = Inr ()"
    and "errors_logged (snd (fst (signOut c fetch t))) = []"
    and "requests_of (snd (fst (signOut c fetch t))) = [signOut_request c t]"
  using assms by (auto simp: signOut_def Let_def)

lemma signOut_client_cases:
  "(fst (fst (signOut c fetch t)) = Inr () \<and> snd (signOut c fetch t) = reset_authorization c)
   \<or> (fst (fst (signOut c fetch t)) \<noteq> Inr () \<and> snd (signOut c fetch t) = c)"
  by (auto simp: signOut_def Let_def catch_log_Inl split: fetch_result.splits option.splits)

lemma signOut_requests: "requests_of (snd (fst (signOut c fetch t))) = [signOut_request c t]"
  by (auto simp: signOut_def Let_def catch_log_Inl split: fetch_result.splits option.splits)

text \<open>
  C1, as amended. For every call to \<^verbatim>\<open>signOut\<close> (with or without an explicit token) whose
  logout request is answered, with a success status or with a non-success status and a JSON
  body other than \<^verbatim>\<open>null\<close>, the call returns normally and the client's stored Authorization
  header afterwards equals \<^verbatim>\<open>Bearer <API key>\<close>; a non-success status is written as a
  warning and is not propagated to the caller. When the request fails at the transport level,
  the error is logged and rethrown to the caller and the stored headers stay as they were.
\<close>

theorem signOut_resets_when_answered:
  "(fetch (signOut_request c t) = Resolved r
      \<and> (ok r \<or> (\<exists>err. json r = Some err \<and> \<not> nullish err)) \<longrightarrow>
        fst (fst (signOut c fetch t)) = Inr ()
      \<and> snd (signOut c fetch t) = reset_authorization c
      \<and> map_of (headers (snd (signOut c fetch t))) ''Authorization''
          = Some (''Bearer '' @ supabaseKey c)
      \<and> errors_logged (snd (fst (signOut c fetch t))) = []
      \<and> (\<not> ok r \<longrightarrow> (\<exists>w. snd (fst (signOut c fetch t))
                               = [Fetch (signOut_request c t), ConsoleWarn w])))
   \<and> (fetch (signOut_request c t) = Rejected \<longrightarrow>
        signOut c fetch t =
          ((Inl NetworkError,
            [Fetch (signOut_request c t), ConsoleError ''Error signing out:'' NetworkError]), c))"
proof (intro conjI impI)
  assume a: "fetch (signOut_request c t) = Resolved r
      \<and> (ok r \<or> (\<exists>err. json r = Some err \<and> \<not> nullish err))"
  then show "fst (fst (signOut c fetch t)) = Inr ()"
    and "errors_logged (snd (fst (signOut c fetch t))) = []"
    and reset: "snd (signOut c fetch t) = reset_authorization c"
    using signOut_answered by blast+
  show "map_of (headers (snd (signOut c fetch t))) ''Authorization''
          = Some (''Bearer '' @ supabaseKey c)"
    by (simp add: reset reset_authorization_def map_of_obj_set)
  show "\<exists>w. snd (fst (signOut c fetch t)) = [Fetch (signOut_request c t), ConsoleWarn w]"
    if "\<not> ok r"
    using a that by (auto simp: signOut_def Let_def)
next
  assume "fetch (signOut_request c t) = Rejected"
  then show "signOut c fetch t =
          ((Inl NetworkError,
            [Fetch (signOut_request c t), ConsoleError ''Error signing out:'' NetworkError]), c)"
    by (rule signOut_rejected)
qed

theorem signOut_resets_witness:
  "signOut (setAuthToken example_client (JStr ''user-token''))
     (answering \<lparr> ok = False, statusText = ''Unauthorized'',
                  json = Some (JObj [(''msg'', JStr ''invalid JWT'')]) \<rparr>) JUndefined
   = ((Inr (),
       [Fetch \<lparr> url = ''https://test.supabase.co/auth/v1/logout'', http_method = ''POST'',
                rheaders = [(''apikey'', ''test-key''), (''Authorization'', ''Bearer user-token''),
                            (''Content-Type'', ''application/json''),
                            (''Prefer'', ''return=representation'')],
                body = None \<rparr>,
        ConsoleWarn ''Supabase Logout Warning: invalid JWT'']),
      example_client)
   \<and> signOut (setAuthToken example_client (JStr ''user-token'')) unreachable JUndefined
   = ((Inl NetworkError,
       [Fetch (signOut_request (setAuthToken example_client (JStr ''user-token'')) JUndefined),
        ConsoleError ''Error signing out:'' NetworkError]),
      setAuthToken example_client (JStr ''user-token''))"
proof -
  let ?c = "setAuthToken example_client (JStr ''user-token'')"
  let ?r = "\<lparr> ok = False, statusText = ''Unauthorized'',
                  json = Some (JObj [(''msg'', JStr ''invalid JWT'')]) \<rparr>"
  have 1: "answering ?r (signOut_request ?c JUndefined) = Resolved ?r
      \<and> (ok ?r \<or> (\<exists>err. json ?r = Some err \<and> \<not> nullish err))"
    by (simp add: answering_def nullish_def)
  have 2: "unreachable (signOut_request ?c JUndefined) = Rejected"
    by (simp add: unreachable_def)
  have 3: "reset_authorization ?c = example_client"
    by (simp add: reset_authorization_def setAuthToken_def example_client_def new_client_def)
  from signOut_resets_when_answered [of "answering ?r" ?c JUndefined ?r] 1
  have "fst (fst (signOut ?c (answering ?r) JUndefined)) = Inr ()"
    and "snd (signOut ?c (answering ?r) JUndefined) = example_client"
    and "\<exists>w. snd (fst (signOut ?c (answering ?r) JUndefined))
           = [Fetch (signOut_request ?c JUndefined), ConsoleWarn w]"
    by (simp_all add: 3)
  moreover
  from signOut_resets_when_answered [of unreachable ?c JUndefined] 2
  have "signOut ?c unreachable JUndefined =
          ((Inl NetworkError,
            [Fetch (signOut_request ?c JUndefined), ConsoleError ''Error signing out:'' NetworkError]),
           ?c)"
    by simp
  ultimately show ?thesis
    by (simp add: js_eval example_client_def)
qed

text \<open>A signed-in client that cannot reach the backend: \<^verbatim>\<open>signOut\<close> throws and the stored
  header still carries the user's token.\<close>

theorem signOut_transport_failure_counterexample:
  "fst (fst (signOut (setAuthToken example_client (JStr ''user-token'')) unreachable JUndefined))
     = Inl NetworkError
   \<and> map_of (headers (snd (signOut (setAuthToken example_client (JStr ''user-token''))
                               unreachable JUndefined))) ''Authorization''
     = Some ''Bearer user-token''
   \<and> supabaseKey (setAuthToken example_client (JStr ''user-token'')) = ''test-key''"
  by (simp add: js_eval example_client_def)

text \<open>
  C10, as amended. For every call \<^verbatim>\<open>signOut(t)\<close> with an explicit (truthy) token \<open>t\<close>, the one
  request of the call is the logout request, sent with \<^verbatim>\<open>Authorization: Bearer t\<close> while the
  other stored headers (\<^verbatim>\<open>apikey\<close>, \<^verbatim>\<open>Content-Type\<close>, \<^verbatim>\<open>Prefer\<close>) are sent unchanged. The
  substitution is made on a copy: the call never stores \<^verbatim>\<open>Bearer t\<close>. The client it leaves
  is the client it found with the Authorization header reset to \<^verbatim>\<open>Bearer <API key>\<close> when
  the call returns, and the client it found, unchanged, when the call throws.
\<close>

theorem signOut_token_only_in_request:
  assumes "js_truthy t"
  shows "requests_of (snd (fst (signOut c fetch t))) = [signOut_request c t]
       \<and> rheaders (signOut_request c t)
           = obj_set (headers c) ''Authorization'' (''Bearer '' @ js_toString t)
       \<and> map_of (rheaders (signOut_request c t)) ''Authorization''
           = Some (''Bearer '' @ js_toString t)
       \<and> (\<forall>k. k \<noteq> ''Authorization'' \<longrightarrow>
             map_of (rheaders (signOut_request c t)) k = map_of (headers c) k)
       \<and> (fst (fst (signOut c fetch t)) = Inr () \<longrightarrow>
             snd (signOut c fetch t) = reset_authorization c
           \<and> map_of (headers (snd (signOut c fetch t))) ''Authorization''
               = Some (''Bearer '' @ supabaseKey c))
       \<and> (fst (fst (signOut c fetch t)) \<noteq> Inr () \<longrightarrow> snd (signOut c fetch t) = c)"
proof -
  have rq: "rheaders (signOut_request c t)
           = obj_set (headers c) ''Authorization'' (''Bearer '' @ js_toString t)"
    using assms by (simp add: signOut_request_def)
  have "map_of (headers (reset_authorization c)) ''Authorization''
               = Some (''Bearer '' @ supabaseKey c)"
    by (simp add: reset_authorization_def map_of_obj_set)
  with signOut_client_cases [of c fetch t] signOut_requests [of c fetch t] rq
  show ?thesis
    by (auto simp: map_of_obj_set)
qed

theorem signOut_token_witness:
  "js_truthy (JStr ''user-token'')
   \<and> signOut example_client
     (answering \<lparr> ok = True, statusText = ''No Content'', json = None \<rparr>) (JStr ''user-token'')
   = ((Inr (),
       [Fetch \<lparr> url = ''https://test.supabase.co/auth/v1/logout'', http_method = ''POST'',
                rheaders = [(''apikey'', ''test-key''), (''Authorization'', ''Bearer user-token''),
                            (''Content-Type'', ''application/json''),
                            (''Prefer'', ''return=representation'')],
                body = None \<rparr>]),
      example_client)"
proof -
  have t: "js_truthy (JStr ''user-token'')" by simp
  from signOut_token_only_in_request
    [OF t, of example_client "answering \<lparr> ok = True, statusText = ''No Content'', json = None \<rparr>"]
  show ?thesis
    by (simp add: js_eval example_client_def)
qed

text \<open>A client signed in with a token, asked to sign out with that token while the backend
  cannot be reached: afterwards the stored header is the passed token, not the API key.\<close>

theorem signOut_token_counterexample:
  "map_of (headers (snd (signOut (setAuthToken example_client (JStr ''user-token''))
                               unreachable (JStr ''user-token'')))) ''Authorization''
     = Some ''Bearer user-token''
   \<and> supabaseKey (setAuthToken example_client (JStr ''user-token'')) = ''test-key''"
  by (simp add: js_eval example_client_def)

lemma read_headers:
  "\<forall>rq \<in> set (requests_of (snd (read c fetch t opts))). rheaders rq = headers c"
  by (auto simp: read_def requests_of_catch_log requests_of_send split: sum.splits)

lemma query_headers:
  "\<forall>rq \<in> set (requests_of (snd (query c fetch t f opts))). rheaders rq = headers c"
  by (auto simp: query_def Let_def requests_of_catch_log requests_of_send split: sum.splits)

lemma getById_headers:
  "\<forall>rq \<in> set (requests_of (snd (getById sp c fetch t i opts))). rheaders rq = headers c"
  using query_headers [of c fetch t]
  by (auto simp: getById_def Let_def requests_of_catch_log split: sum.splits)

lemma update_headers:
  "\<forall>rq \<in> set (requests_of (snd (update c fetch t f d))). rheaders rq = headers c"
  by (auto simp: update_def requests_of_catch_log requests_of_send split: sum.splits)

lemma delete_headers:
  "\<forall>rq \<in> set (requests_of (snd (delete c fetch t f))). rheaders rq = headers c"
  by (auto simp: delete_def requests_of_catch_log requests_of_send split: sum.splits)

lemma run_headers:
  "\<forall>rq \<in> set (requests_of (snd (run sp c fetch call))). rheaders rq = headers c"
proof (cases call)
  case (Read t opts)
  then show ?thesis using read_headers by simp
next
  case (Query t f opts)
  then show ?thesis using query_headers by simp
next
  case (GetById t i opts)
  then show ?thesis using getById_headers by simp
next
  case (Insert t d)
  then show ?thesis by (simp add: insert_row_def requests_of_catch_log requests_of_send)
next
  case (InsertMany t d)
  then show ?thesis by (simp add: insertMany_def requests_of_catch_log requests_of_send)
next
  case (Update t f d)
  then show ?thesis using update_headers by simp
next
  case (UpdateById t i d)
  then show ?thesis using update_headers by (simp add: updateById_def)
next
  case (Delete t f)
  then show ?thesis using delete_headers by simp
next
  case (DeleteById t i)
  then show ?thesis using delete_headers by (simp add: deleteById_def)
qed

lemma signUp_headers:
  "\<forall>rq \<in> set (requests_of (snd (signUp c fetch e p d))). rheaders rq = headers c"
  by (simp add: signUp_def requests_of_catch_log requests_of_send)

lemma signIn_requests:
  "requests_of (snd (fst (signIn c fetch e p))) = [signIn_request c e p]"
  by (auto simp: signIn_def Let_def requests_of_catch_log requests_of_send catch_log_Inl
      requests_of_append split: sum.splits)

lemma signIn_success:
  assumes "fst (fst (signIn c fetch email password)) = Inr result"
    and "js_truthy (js_prop result ''access_token'')"
  shows "snd (signIn c fetch email password) = setAuthToken c (js_prop result ''access_token'')"
  using assms
  by (auto simp: signIn_def Let_def catch_log_Inl fst_catch_log split: sum.splits if_splits)

text \<open>
  C2, as amended. The Authorization header of a newly constructed client is
  \<^verbatim>\<open>Bearer <API key>\<close>. After every successful \<^verbatim>\<open>signIn\<close> whose result holds an access
  token, the stored headers are the previous ones with Authorization set to
  \<^verbatim>\<open>Bearer <that token>\<close>, and every request sent by a subsequent CRUD operation, by
  \<^verbatim>\<open>signUp\<close>, by \<^verbatim>\<open>signIn\<close> and by \<^verbatim>\<open>signOut\<close> called without a token carries these
  headers. The request of \<^verbatim>\<open>signOut(t)\<close> called with a token \<open>t\<close> of its own carries
  \<^verbatim>\<open>Authorization: Bearer t\<close> instead, and the other stored headers.
\<close>

theorem signIn_sets_bearer_token:
  assumes "fst (fst (signIn c fetch email password)) = Inr result"
    and "js_truthy (js_prop result ''access_token'')"
  shows "map_of (headers (new_client u k)) ''Authorization'' = Some (''Bearer '' @ k)
       \<and> headers (snd (signIn c fetch email password))
           = obj_set (headers c) ''Authorization''
               (''Bearer '' @ js_toString (js_prop result ''access_token''))
       \<and> map_of (headers (snd (signIn c fetch email password))) ''Authorization''
           = Some (''Bearer '' @ js_toString (js_prop result ''access_token''))
       \<and> (\<forall>rq \<in> set (requests_of (snd (run sp (snd (signIn c fetch email password)) fetch' call))).
             rheaders rq = headers (snd (signIn c fetch email password)))
       \<and> (\<forall>rq \<in> set (requests_of (snd (signUp (snd (signIn c fetch email password)) fetch' e p d))).
             rheaders rq = headers (snd (signIn c fetch email password)))
       \<and> (\<forall>rq \<in> set (requests_of (snd (fst (signIn (snd (signIn c fetch email password)) fetch' e p)))).
             rheaders rq = headers (snd (signIn c fetch email password)))
       \<and> (\<forall>rq \<in> set (requests_of (snd (fst (signOut (snd (signIn c fetch email password)) fetch'
                                                 t)))).
             rheaders rq =
               (if js_truthy t
                then obj_set (headers (snd (signIn c fetch email password))) ''Authorization''
                       (''Bearer '' @ js_toString t)
                else headers (snd (signIn c fetch email password))))"
proof -
  let ?c = "snd (signIn c fetch email password)"
  have c': "?c = setAuthToken c (js_prop result ''access_token'')"
    using assms by (rule signIn_success)
  have "map_of (headers (new_client u k)) ''Authorization'' = Some (''Bearer '' @ k)"
    by (simp add: new_client_def)
  moreover have "headers ?c = obj_set (headers c) ''Authorization''
               (''Bearer '' @ js_toString (js_prop result ''access_token''))"
    by (simp add: c' setAuthToken_def)
  moreover have "map_of (headers ?c) ''Authorization''
           = Some (''Bearer '' @ js_toString (js_prop result ''access_token''))"
    by (simp add: c' setAuthToken_def map_of_obj_set)
  moreover have "\<forall>rq \<in> set (requests_of (snd (fst (signIn ?c fetch' e p)))). rheaders rq = headers ?c"
    by (simp add: signIn_requests signIn_request_def)
  moreover have "\<forall>rq \<in> set (requests_of (snd (fst (signOut ?c fetch' t)))).
             rheaders rq =
               (if js_truthy t
                then obj_set (headers ?c) ''Authorization'' (''Bearer '' @ js_toString t)
                else headers ?c)"
    by (simp add: signOut_requests signOut_request_def)
  ultimately show ?thesis
    using run_headers [of sp ?c fetch' call] signUp_headers [of ?c fetch' e p d]
    by blast
qed

theorem signIn_sets_bearer_token_witness:
  "signIn example_client
     (answering \<lparr> ok = True, statusText = ''OK'',
                  json = Some (JObj [(''access_token'', JStr ''user-token'')]) \<rparr>)
     (JStr ''test@test.com'') (JStr ''test'')
   = ((Inr (JObj [(''access_token'', JStr ''user-token'')]),
       [Fetch \<lparr> url = ''https://test.supabase.co/auth/v1/token?grant_type=password'',
                http_method = ''POST'', rheaders = headers example_client,
                body = Some (JObj [(''email'', JStr ''test@test.com''),
                                   (''password'', JStr ''test'')]) \<rparr>]),
      example_client \<lparr> headers :=
        [(''apikey'', ''test-key''), (''Authorization'', ''Bearer user-token''),
         (''Content-Type'', ''application/json''), (''Prefer'', ''return=representation'')] \<rparr>)
   \<and> requests_of (snd (read
        (snd (signIn example_client
           (answering \<lparr> ok = True, statusText = ''OK'',
                        json = Some (JObj [(''access_token'', JStr ''user-token'')]) \<rparr>)
           (JStr ''test@test.com'') (JStr ''test'')))
        unreachable ''comments'' JUndefined))
     = [\<lparr> url = ''https://test.supabase.co/rest/v1/comments'', http_method = ''GET'',
          rheaders = [(''apikey'', ''test-key''), (''Authorization'', ''Bearer user-token''),
                      (''Content-Type'', ''application/json''),
                      (''Prefer'', ''return=representation'')],
          body = None \<rparr>]"
proof -
  let ?b = "answering \<lparr> ok = True, statusText = ''OK'',
                  json = Some (JObj [(''access_token'', JStr ''user-token'')]) \<rparr>"
  have 1: "fst (fst (signIn example_client ?b (JStr ''test@test.com'') (JStr ''test'')))
      = Inr (JObj [(''access_token'', JStr ''user-token'')])"
    by (simp add: js_eval example_client_def)
  have 2: "js_truthy (js_prop (JObj [(''access_token'', JStr ''user-token'')]) ''access_token'')"
    by simp
  from signIn_sets_bearer_token [OF 1 2, of _ _ example_str_pos unreachable
      "Read ''comments'' JUndefined"]
  show ?thesis
    by (simp add: js_eval example_client_def)
qed

text \<open>A client signed in with the token \<^verbatim>\<open>user-token\<close>, then \<^verbatim>\<open>signOut('other')\<close>: the
  request that follows the sign-in carries \<^verbatim>\<open>Bearer other\<close>, not the returned token.\<close>

theorem signOut_other_token_counterexample:
  "fst (fst (signIn example_client
       (answering \<lparr> ok = True, statusText = ''OK'',
                    json = Some (JObj [(''access_token'', JStr ''user-token'')]) \<rparr>)
       (JStr ''test@test.com'') (JStr ''test'')))
     = Inr (JObj [(''access_token'', JStr ''user-token'')])
   \<and> requests_of (snd (fst (signOut
        (snd (signIn example_client
           (answering \<lparr> ok = True, statusText = ''OK'',
                        json = Some (JObj [(''access_token'', JStr ''user-token'')]) \<rparr>)
           (JStr ''test@test.com'') (JStr ''test'')))
        (answering \<lparr> ok = True, statusText = ''No Content'', json = None \<rparr>)
        (JStr ''other''))))
     = [\<lparr> url = ''https://test.supabase.co/auth/v1/logout'', http_method = ''POST'',
          rheaders = [(''apikey'', ''test-key''), (''Authorization'', ''Bearer other''),
                      (''Content-Type'', ''application/json''),
                      (''Prefer'', ''return=representation'')],
          body = None \<rparr>]"
  by (simp add: js_eval example_client_def)

end
